theory Spec2Isabelle
  imports Main "HOL-Library.Option_ord"
begin

section \<open>Storage model: \<^verbatim>\<open>prisma/schema.prisma\<close>\<close>

text \<open>
  The three models of the schema are records; a table is the list of its rows in the
  order in which the storage engine scans them. Identifiers are strings
  (\<^verbatim>\<open>String @id @default(cuid())\<close>), a \<^verbatim>\<open>DateTime\<close> is a number of milliseconds,
  and a nullable column (\<^verbatim>\<open>String?\<close>, \<^verbatim>\<open>DateTime?\<close>) is an \<open>option\<close>.
\<close>

type_synonym ident = string
type_synonym datetime = int

record Task =
  task_id :: ident
  task_title :: string
  task_description :: "string option"
  task_priority :: string
  task_status :: string
  task_dueDate :: "datetime option"
  task_createdAt :: datetime
  task_updatedAt :: datetime

record Label =
  label_id :: ident
  label_name :: string
  label_color :: string
  label_createdAt :: datetime
  label_updatedAt :: datetime

record TaskLabel =
  taskId :: ident
  labelId :: ident

record db =
  task_tbl :: "Task list"
  label_tbl :: "Label list"
  taskLabel_tbl :: "TaskLabel list"

text \<open>
  What a call of the storage client can reject with: an argument that does not fit the
  schema (raised by the client before the query is sent), a violated unique or primary
  key, a violated foreign key, a record that a \<^verbatim>\<open>delete\<close> does not find, and any
  failure of the engine itself (connection, I/O).
\<close>

datatype prisma_error =
  PrismaClientValidationError
  | UniqueConstraintFailed
  | ForeignKeyConstraintFailed
  | RecordNotFound
  | EngineFailure

text \<open>A JavaScript \<^verbatim>\<open>Date\<close> object: a time value, or \<^verbatim>\<open>Invalid Date\<close> (time value NaN).\<close>

datatype Date = ValidDate datetime | InvalidDate

text \<open>
  What the handlers take from outside the repository, as parameters:
  \<^item> \<open>newDate\<close>: the \<^verbatim>\<open>Date\<close> constructor of the runtime on a string;
  \<^item> \<open>cuid\<close>: the identifier that \<^verbatim>\<open>@default(cuid())\<close> generates in the storage call
    with a given index;
  \<^item> \<open>now\<close>: the clock reading that \<^verbatim>\<open>@default(now())\<close> and \<^verbatim>\<open>@updatedAt\<close> store in
    that call;
  \<^item> \<open>fault\<close>: whether the engine fails in that call.
  The general theorems below hold for all of them; the evaluations at concrete requests
  use \<open>sample_env\<close>.
\<close>

record env =
  newDate :: "string \<Rightarrow> Date"
  cuid :: "nat \<Rightarrow> ident"
  now :: "nat \<Rightarrow> datetime"
  fault :: "nat \<Rightarrow> bool"

text \<open>
  The state a handler runs in: the stored rows and the number of storage calls issued so
  far. A storage call returns its result or its error together with the new state; a
  call that fails leaves the rows as they were.
\<close>

record world =
  store :: db
  calls :: nat

definition tick :: "world \<Rightarrow> world" where
  "tick w = w\<lparr>calls := Suc (calls w)\<rparr>"

subsection \<open>The storage calls the handlers make\<close>

text \<open>The \<^verbatim>\<open>data\<close> argument of \<^verbatim>\<open>prisma.task.create\<close> as the handler builds it.\<close>

record task_create_data =
  tcd_title :: "string option"
  tcd_description :: "string option"
  tcd_priority :: "string option"
  tcd_status :: "string option"
  tcd_dueDate :: "Date option"

text \<open>
  \<^verbatim>\<open>prisma.task.create\<close>: \<^verbatim>\<open>title\<close> is required, \<^verbatim>\<open>priority\<close> and \<^verbatim>\<open>status\<close> take the
  schema's defaults \<^verbatim>\<open>"MEDIUM"\<close> and \<^verbatim>\<open>"TODO"\<close> when undefined, an invalid \<^verbatim>\<open>Date\<close> is
  refused, and \<^verbatim>\<open>id\<close> is the primary key.
\<close>

definition task_create :: "env \<Rightarrow> task_create_data \<Rightarrow> world \<Rightarrow> (prisma_error + Task) \<times> world" where
  "task_create e d w =
     (let k = calls w; w1 = tick w in
      case tcd_title d of
        None \<Rightarrow> (Inl PrismaClientValidationError, w1)
      | Some t \<Rightarrow>
          if tcd_dueDate d = Some InvalidDate then (Inl PrismaClientValidationError, w1)
          else if fault e k then (Inl EngineFailure, w1)
          else
            let row = \<lparr>task_id = cuid e k,
                       task_title = t,
                       task_description = tcd_description d,
                       task_priority = (case tcd_priority d of None \<Rightarrow> ''MEDIUM'' | Some p \<Rightarrow> p),
                       task_status = (case tcd_status d of None \<Rightarrow> ''TODO'' | Some s \<Rightarrow> s),
                       task_dueDate = (case tcd_dueDate d of Some (ValidDate ms) \<Rightarrow> Some ms | _ \<Rightarrow> None),
                       task_createdAt = now e k,
                       task_updatedAt = now e k\<rparr>
            in if task_id row \<in> set (map task_id (task_tbl (store w)))
               then (Inl UniqueConstraintFailed, w1)
               else (Inr row, w1\<lparr>store := (store w)\<lparr>task_tbl := task_tbl (store w) @ [row]\<rparr>\<rparr>))"

text \<open>
  \<^verbatim>\<open>prisma.label.findFirst({ where: { name } })\<close>: the first label, in the engine's
  order, whose name is the given one; an undefined \<^verbatim>\<open>name\<close> is no condition at all. Only
  the name is compared.
\<close>

definition label_findFirst :: "env \<Rightarrow> string option \<Rightarrow> world \<Rightarrow> (prisma_error + Label option) \<times> world" where
  "label_findFirst e nm w =
     (let k = calls w; w1 = tick w in
      if fault e k then (Inl EngineFailure, w1)
      else (Inr (find (\<lambda>l. case nm of None \<Rightarrow> True | Some n \<Rightarrow> label_name l = n)
                   (label_tbl (store w))), w1))"

text \<open>
  \<^verbatim>\<open>prisma.label.create\<close>: \<^verbatim>\<open>name\<close> is required, \<^verbatim>\<open>id\<close> is the primary key and
  \<^verbatim>\<open>@@unique([name, color])\<close> holds.
\<close>

definition label_create :: "env \<Rightarrow> string option \<Rightarrow> string \<Rightarrow> world \<Rightarrow> (prisma_error + Label) \<times> world" where
  "label_create e nm col w =
     (let k = calls w; w1 = tick w in
      case nm of
        None \<Rightarrow> (Inl PrismaClientValidationError, w1)
      | Some n \<Rightarrow>
          if fault e k then (Inl EngineFailure, w1)
          else
            let row = \<lparr>label_id = cuid e k, label_name = n, label_color = col,
                       label_createdAt = now e k, label_updatedAt = now e k\<rparr>
            in if label_id row \<in> set (map label_id (label_tbl (store w)))
                  \<or> (n, col) \<in> set (map (\<lambda>l. (label_name l, label_color l)) (label_tbl (store w)))
               then (Inl UniqueConstraintFailed, w1)
               else (Inr row, w1\<lparr>store := (store w)\<lparr>label_tbl := label_tbl (store w) @ [row]\<rparr>\<rparr>))"

text \<open>
  \<^verbatim>\<open>prisma.taskLabel.create\<close>: \<^verbatim>\<open>@@id([taskId, labelId])\<close> is the primary key and both
  columns are foreign keys.
\<close>

definition taskLabel_create :: "env \<Rightarrow> ident \<Rightarrow> ident \<Rightarrow> world \<Rightarrow> (prisma_error + TaskLabel) \<times> world" where
  "taskLabel_create e tid lid w =
     (let k = calls w; w1 = tick w; row = \<lparr>taskId = tid, labelId = lid\<rparr> in
      if fault e k then (Inl EngineFailure, w1)
      else if row \<in> set (taskLabel_tbl (store w)) then (Inl UniqueConstraintFailed, w1)
      else if tid \<notin> set (map task_id (task_tbl (store w)))
              \<or> lid \<notin> set (map label_id (label_tbl (store w)))
           then (Inl ForeignKeyConstraintFailed, w1)
      else (Inr row, w1\<lparr>store := (store w)\<lparr>taskLabel_tbl := taskLabel_tbl (store w) @ [row]\<rparr>\<rparr>))"

text \<open>\<^verbatim>\<open>prisma.taskLabel.deleteMany({ where: { taskId } })\<close> returns the number of rows removed.\<close>

definition taskLabel_deleteMany :: "env \<Rightarrow> ident \<Rightarrow> world \<Rightarrow> (prisma_error + nat) \<times> world" where
  "taskLabel_deleteMany e tid w =
     (let k = calls w; w1 = tick w in
      if fault e k then (Inl EngineFailure, w1)
      else (Inr (length (filter (\<lambda>r. taskId r = tid) (taskLabel_tbl (store w)))),
            w1\<lparr>store := (store w)\<lparr>taskLabel_tbl :=
                   filter (\<lambda>r. taskId r \<noteq> tid) (taskLabel_tbl (store w))\<rparr>\<rparr>))"

text \<open>
  \<^verbatim>\<open>prisma.task.delete({ where: { id } })\<close>: the record must exist, and no association may
  still refer to it (the relation has no \<^verbatim>\<open>onDelete\<close> action).
\<close>

definition task_delete :: "env \<Rightarrow> ident \<Rightarrow> world \<Rightarrow> (prisma_error + Task) \<times> world" where
  "task_delete e tid w =
     (let k = calls w; w1 = tick w in
      if fault e k then (Inl EngineFailure, w1)
      else case find (\<lambda>t. task_id t = tid) (task_tbl (store w)) of
        None \<Rightarrow> (Inl RecordNotFound, w1)
      | Some t \<Rightarrow>
          if tid \<in> set (map taskId (taskLabel_tbl (store w)))
          then (Inl ForeignKeyConstraintFailed, w1)
          else (Inr t, w1\<lparr>store := (store w)\<lparr>task_tbl :=
                   filter (\<lambda>t. task_id t \<noteq> tid) (task_tbl (store w))\<rparr>\<rparr>))"

text \<open>
  The \<^verbatim>\<open>where\<close> object of \<^verbatim>\<open>GET\<close>: each key is set or left out.
  \<open>labels_some_label_name_in\<close> is \<^verbatim>\<open>labels: { some: { label: { name: { in } } } }\<close>.
\<close>

record where_clause =
  labels_some_label_name_in :: "string list option"
  status_in :: "string list option"
  priority_in :: "string list option"

definition where_matches :: "db \<Rightarrow> where_clause \<Rightarrow> Task \<Rightarrow> bool" where
  "where_matches d wc t \<longleftrightarrow>
     (case labels_some_label_name_in wc of
        None \<Rightarrow> True
      | Some names \<Rightarrow>
          list_ex (\<lambda>tl. taskId tl = task_id t
                     \<and> list_ex (\<lambda>l. label_id l = labelId tl \<and> label_name l \<in> set names)
                         (label_tbl d))
            (taskLabel_tbl d))
     \<and> (case status_in wc of None \<Rightarrow> True | Some ss \<Rightarrow> task_status t \<in> set ss)
     \<and> (case priority_in wc of None \<Rightarrow> True | Some ps \<Rightarrow> task_priority t \<in> set ps)"

text \<open>\<^verbatim>\<open>include: { labels: { include: { label: true } } }\<close>: the associations of a task, each with its label.\<close>

definition include_labels :: "db \<Rightarrow> Task \<Rightarrow> (TaskLabel \<times> Label) list" where
  "include_labels d t =
     concat (map (\<lambda>tl. map (\<lambda>l. (tl, l)) (filter (\<lambda>l. label_id l = labelId tl) (label_tbl d)))
               (filter (\<lambda>tl. taskId tl = task_id t) (taskLabel_tbl d)))"

text \<open>
  \<^verbatim>\<open>prisma.task.findMany\<close> with \<^verbatim>\<open>where\<close>, \<^verbatim>\<open>orderBy: { dueDate: 'asc' }\<close> and the
  \<^verbatim>\<open>include\<close> above. A null due date sorts before every date.
\<close>

definition task_findMany ::
  "env \<Rightarrow> where_clause option \<Rightarrow> world \<Rightarrow> (prisma_error + (Task \<times> (TaskLabel \<times> Label) list) list) \<times> world" where
  "task_findMany e wc w =
     (let k = calls w; w1 = tick w in
      if fault e k then (Inl EngineFailure, w1)
      else (Inr (map (\<lambda>t. (t, include_labels (store w) t))
                   (sort_key task_dueDate
                      (filter (\<lambda>t. case wc of None \<Rightarrow> True | Some c \<Rightarrow> where_matches (store w) c t)
                         (task_tbl (store w))))), w1))"

text \<open>
  \<^verbatim>\<open>prisma.$transaction(async (prisma) => ...)\<close>: when the callback throws, the rows are
  those of before the transaction.
\<close>

definition transaction :: "(world \<Rightarrow> (prisma_error + 'a) \<times> world) \<Rightarrow> world \<Rightarrow> (prisma_error + 'a) \<times> world" where
  "transaction f w =
     (case f w of
        (Inl err, w') \<Rightarrow> (Inl err, w'\<lparr>store := store w\<rparr>)
      | (Inr v, w') \<Rightarrow> (Inr v, w'))"

section \<open>The route handlers: \<^verbatim>\<open>app/api/tasks/route.ts\<close>\<close>

text \<open>
  The body of a \<^verbatim>\<open>POST\<close> request is a JSON object whose fields \<^verbatim>\<open>title\<close>,
  \<^verbatim>\<open>description\<close>, \<^verbatim>\<open>priority\<close>, \<^verbatim>\<open>status\<close>, \<^verbatim>\<open>dueDate\<close> and the \<^verbatim>\<open>name\<close> and \<^verbatim>\<open>color\<close> of a
  label are each absent (\<open>None\<close>) or a JSON string, and whose \<^verbatim>\<open>labels\<close> is absent or an
  array of objects. Bodies of another shape (not JSON, not an object, a field of another
  JSON type) are outside the model.
\<close>

record label_input =
  name :: "string option"
  color :: "string option"

record create_request =
  title :: "string option"
  description :: "string option"
  priority :: "string option"
  status :: "string option"
  dueDate :: "string option"
  labels :: "label_input list option"

datatype json_body =
  ErrorJson string
  | ErrorDetailsJson string prisma_error
  | TaskJson Task
  | TasksJson "(Task \<times> (TaskLabel \<times> Label) list) list"
  | DeletedJson bool string Task

record response =
  http_status :: nat
  http_body :: json_body

text \<open>JavaScript truthiness of a value that is undefined or a string.\<close>

definition truthy :: "string option \<Rightarrow> bool" where
  "truthy v \<longleftrightarrow> (case v of None \<Rightarrow> False | Some s \<Rightarrow> s \<noteq> [])"

subsection \<open>The validation schemas\<close>

text \<open>
  Lines 6-24 declare two schemas. A schema is modelled by the predicate "parsing
  succeeds"; string lengths are counted in characters.
  \<^verbatim>\<open>/^#([0-9A-F]{3}){1,2}$/i\<close> is a \<^verbatim>\<open>#\<close> followed by three or six hexadecimal digits.
\<close>

definition hex_digit :: "char \<Rightarrow> bool" where
  "hex_digit c \<longleftrightarrow> c \<in> set ''0123456789abcdefABCDEF''"

definition hex_color :: "string \<Rightarrow> bool" where
  "hex_color s \<longleftrightarrow>
     (case s of
        [] \<Rightarrow> False
      | c # cs \<Rightarrow> c = CHR ''#'' \<and> (length cs = 3 \<or> length cs = 6) \<and> list_all hex_digit cs)"

definition LabelSchema :: "label_input \<Rightarrow> bool" where
  "LabelSchema l \<longleftrightarrow>
     name l \<noteq> None \<and> (case color l of None \<Rightarrow> True | Some c \<Rightarrow> hex_color c)"

definition CreateTaskSchema :: "env \<Rightarrow> create_request \<Rightarrow> bool" where
  "CreateTaskSchema e d \<longleftrightarrow>
     (case title d of None \<Rightarrow> False | Some t \<Rightarrow> 1 \<le> length t \<and> length t \<le> 100)
     \<and> (case priority d of None \<Rightarrow> True | Some p \<Rightarrow> p \<in> set [''LOW'', ''MEDIUM'', ''HIGH''])
     \<and> (case status d of None \<Rightarrow> True | Some s \<Rightarrow> s \<in> set [''TODO'', ''IN_PROGRESS'', ''DONE''])
     \<and> (case dueDate d of None \<Rightarrow> True | Some v \<Rightarrow> v = [] \<or> newDate e v \<noteq> InvalidDate)
     \<and> (case labels d of None \<Rightarrow> True | Some ls \<Rightarrow> list_all LabelSchema ls)"

text \<open>
  Neither schema is applied anywhere in \<^verbatim>\<open>route.ts\<close>: \<^verbatim>\<open>POST\<close> below reads the parsed
  body directly.
\<close>

subsection \<open>\<^verbatim>\<open>POST\<close>\<close>

text \<open>
  Lines 59-72, one label of the loop: look the name up; reuse the identifier of the label
  found, or create the label with \<^verbatim>\<open>label.color || '#3b82f6'\<close>.
\<close>

definition resolve_label :: "env \<Rightarrow> label_input \<Rightarrow> world \<Rightarrow> (prisma_error + ident) \<times> world" where
  "resolve_label e label w =
     (case label_findFirst e (name label) w of
        (Inl err, w1) \<Rightarrow> (Inl err, w1)
      | (Inr (Some existingLabel), w1) \<Rightarrow> (Inr (label_id existingLabel), w1)
      | (Inr None, w1) \<Rightarrow>
          (case label_create e (name label)
                  (if truthy (color label) then the (color label) else ''#3b82f6'') w1 of
             (Inl err, w2) \<Rightarrow> (Inl err, w2)
           | (Inr newLabel, w2) \<Rightarrow> (Inr (label_id newLabel), w2)))"

text \<open>Lines 51-83, the \<^verbatim>\<open>while\<close> loop over \<^verbatim>\<open>labelData\<close>, in input order.\<close>

fun label_loop :: "env \<Rightarrow> ident \<Rightarrow> label_input list \<Rightarrow> world \<Rightarrow> (prisma_error + unit) \<times> world" where
  "label_loop e tid [] w = (Inr (), w)"
| "label_loop e tid (label # rest) w =
     (case resolve_label e label w of
        (Inl err, w1) \<Rightarrow> (Inl err, w1)
      | (Inr lid, w1) \<Rightarrow>
          (case taskLabel_create e tid lid w1 of
             (Inl err, w2) \<Rightarrow> (Inl err, w2)
           | (Inr _, w2) \<Rightarrow> label_loop e tid rest w2))"

text \<open>Lines 36-85, the callback of the transaction.\<close>

definition create_tx :: "env \<Rightarrow> create_request \<Rightarrow> Date option \<Rightarrow> world \<Rightarrow> (prisma_error + Task) \<times> world" where
  "create_tx e data due w =
     (case task_create e \<lparr>tcd_title = title data,
                           tcd_description = description data,
                           tcd_priority = priority data,
                           tcd_status = status data,
                           tcd_dueDate = due\<rparr> w of
        (Inl err, w1) \<Rightarrow> (Inl err, w1)
      | (Inr createdTask, w1) \<Rightarrow>
          (case label_loop e (task_id createdTask)
                  (case labels data of None \<Rightarrow> [] | Some ls \<Rightarrow> ls) w1 of
             (Inl err, w2) \<Rightarrow> (Inl err, w2)
           | (Inr _, w2) \<Rightarrow> (Inr createdTask, w2)))"

text \<open>Line 28: \<^verbatim>\<open>data.dueDate ? new Date(data.dueDate) : null\<close>.\<close>

definition dueDate_of :: "env \<Rightarrow> create_request \<Rightarrow> Date option" where
  "dueDate_of e data = (if truthy (dueDate data) then Some (newDate e (the (dueDate data))) else None)"

text \<open>Line 29: \<^verbatim>\<open>data.dueDate && isNaN(dueDate!.getTime())\<close>.\<close>

definition dueDate_rejected :: "env \<Rightarrow> create_request \<Rightarrow> bool" where
  "dueDate_rejected e data \<longleftrightarrow> truthy (dueDate data) \<and> dueDate_of e data = Some InvalidDate"

definition POST :: "env \<Rightarrow> create_request \<Rightarrow> world \<Rightarrow> response \<times> world" where
  "POST e data w =
     (if dueDate_rejected e data
      then (\<lparr>http_status = 400, http_body = ErrorJson ''Invalid due date format''\<rparr>, w)
      else case transaction (create_tx e data (dueDate_of e data)) w of
             (Inr task, w') \<Rightarrow> (\<lparr>http_status = 200, http_body = TaskJson task\<rparr>, w')
           | (Inl err, w') \<Rightarrow>
               (\<lparr>http_status = 500, http_body = ErrorJson ''Failed to create task''\<rparr>, w'))"

subsection \<open>\<^verbatim>\<open>GET\<close>\<close>

text \<open>
  Lines 108-135: a key of the \<^verbatim>\<open>where\<close> object is set when its parameter occurs in the
  query; an object without keys is passed as \<^verbatim>\<open>undefined\<close>.
\<close>

definition whereClause :: "string list \<Rightarrow> string list \<Rightarrow> string list \<Rightarrow> where_clause option" where
  "whereClause labelNames statuses priorities =
     (if labelNames = [] \<and> statuses = [] \<and> priorities = [] then None
      else Some \<lparr>labels_some_label_name_in = (if labelNames \<noteq> [] then Some labelNames else None),
                 status_in = (if statuses \<noteq> [] then Some statuses else None),
                 priority_in = (if priorities \<noteq> [] then Some priorities else None)\<rparr>)"

definition GET :: "env \<Rightarrow> string list \<Rightarrow> string list \<Rightarrow> string list \<Rightarrow> world \<Rightarrow> response \<times> world" where
  "GET e labelNames statuses priorities w =
     (case task_findMany e (whereClause labelNames statuses priorities) w of
        (Inr tasks, w') \<Rightarrow> (\<lparr>http_status = 200, http_body = TasksJson tasks\<rparr>, w')
      | (Inl err, w') \<Rightarrow> (\<lparr>http_status = 500, http_body = ErrorJson ''Failed to fetch tasks''\<rparr>, w'))"

subsection \<open>\<^verbatim>\<open>DELETE\<close>\<close>

text \<open>
  \<^verbatim>\<open>searchParams.get('id')\<close> is \<^verbatim>\<open>null\<close> (\<open>None\<close>) or a string. The two storage calls run
  one after the other, outside any transaction.
\<close>

definition DELETE :: "env \<Rightarrow> string option \<Rightarrow> world \<Rightarrow> response \<times> world" where
  "DELETE e taskId_param w =
     (if \<not> truthy taskId_param
      then (\<lparr>http_status = 400, http_body = ErrorJson ''Task ID is required''\<rparr>, w)
      else
        let tid = the taskId_param in
        case taskLabel_deleteMany e tid w of
          (Inl err, w1) \<Rightarrow>
            (\<lparr>http_status = 500, http_body = ErrorDetailsJson ''Failed to delete task'' err\<rparr>, w1)
        | (Inr _, w1) \<Rightarrow>
            (case task_delete e tid w1 of
               (Inl err, w2) \<Rightarrow>
                 (\<lparr>http_status = 500, http_body = ErrorDetailsJson ''Failed to delete task'' err\<rparr>, w2)
             | (Inr deletedTask, w2) \<Rightarrow>
                 (\<lparr>http_status = 200,
                   http_body = DeletedJson True ''Task deleted successfully'' deletedTask\<rparr>, w2)))"

subsection \<open>A concrete environment and state, for evaluation\<close>

text \<open>
  An environment without faults, whose clock advances by one per call, whose identifiers
  are pairwise different, and whose \<open>newDate\<close> accepts one ISO date; and the empty store.
\<close>

definition sample_env :: env where
  "sample_env = \<lparr>newDate = (\<lambda>s. if s = ''2024-05-01'' then ValidDate 1714521600000 else InvalidDate),
                 cuid = (\<lambda>k. replicate (Suc k) (CHR ''c'')),
                 now = (\<lambda>k. 1700000000000 + int k),
                 fault = (\<lambda>k. False)\<rparr>"

definition empty_world :: world where
  "empty_world = \<lparr>store = \<lparr>task_tbl = [], label_tbl = [], taskLabel_tbl = []\<rparr>, calls = 0\<rparr>"

text \<open>A store with two tasks, one label and one association.\<close>

definition seeded_world :: world where
  "seeded_world =
     \<lparr>store =
        \<lparr>task_tbl =
           [\<lparr>task_id = ''t1'', task_title = ''write report'', task_description = None,
              task_priority = ''HIGH'', task_status = ''TODO'', task_dueDate = Some 1714521600000,
              task_createdAt = 1690000000000, task_updatedAt = 1690000000000\<rparr>,
            \<lparr>task_id = ''t2'', task_title = ''buy milk'', task_description = Some ''2 litres'',
              task_priority = ''LOW'', task_status = ''DONE'', task_dueDate = None,
              task_createdAt = 1690000000001, task_updatedAt = 1690000000002\<rparr>],
         label_tbl =
           [\<lparr>label_id = ''l1'', label_name = ''work'', label_color = ''#ff0000'',
              label_createdAt = 1690000000000, label_updatedAt = 1690000000000\<rparr>],
         taskLabel_tbl = [\<lparr>taskId = ''t1'', labelId = ''l1''\<rparr>]\<rparr>,
      calls = 0\<rparr>"

section \<open>Lemmas about the storage calls and the label loop\<close>

lemmas eval_defs = POST_def dueDate_rejected_def dueDate_of_def truthy_def transaction_def
  create_tx_def task_create_def tick_def sample_env_def empty_world_def Let_def
  resolve_label_def label_findFirst_def label_create_def taskLabel_create_def seeded_world_def
  DELETE_def taskLabel_deleteMany_def task_delete_def

lemma find_append_case:
  "find P (xs @ ys) = (case find P xs of None \<Rightarrow> find P ys | Some x \<Rightarrow> Some x)"
  by (induction xs) auto

lemma find_in_set: "find P xs = Some x \<Longrightarrow> x \<in> set xs \<and> P x"
  by (induction xs) (auto split: if_splits)

lemma find_exists: "x \<in> set xs \<Longrightarrow> P x \<Longrightarrow> \<exists>y. find P xs = Some y"
  by (induction xs) auto

text \<open>What one lookup-or-create step does to the tables.\<close>

lemma resolve_label_tables:
  assumes "resolve_label e x w = (r, w1)"
  shows "task_tbl (store w1) = task_tbl (store w)
       \<and> taskLabel_tbl (store w1) = taskLabel_tbl (store w)
       \<and> (label_tbl (store w1) = label_tbl (store w)
          \<or> (\<exists>row. label_tbl (store w1) = label_tbl (store w) @ [row]
                \<and> r = Inr (label_id row)
                \<and> name x = Some (label_name row)
                \<and> find (\<lambda>l. label_name l = label_name row) (label_tbl (store w)) = None))"
  using assms
  by (auto simp: resolve_label_def label_findFirst_def label_create_def tick_def Let_def
      split: if_splits option.splits)

lemma resolve_label_existing:
  assumes "name x = Some n"
    and "find (\<lambda>l. label_name l = n) (label_tbl (store w)) = Some L"
    and "resolve_label e x w = (r, w1)"
  shows "store w1 = store w \<and> (r = Inr (label_id L) \<or> r = Inl EngineFailure)"
  using assms
  by (auto simp: resolve_label_def label_findFirst_def tick_def Let_def split: if_splits)

lemma resolve_label_existing_exact:
  assumes "name x = Some n"
    and "find (\<lambda>l. label_name l = n) (label_tbl (store w)) = Some L"
  shows "resolve_label e x w =
           (if fault e (calls w) then Inl EngineFailure else Inr (label_id L), tick w)"
  using assms by (simp add: resolve_label_def label_findFirst_def Let_def)

lemma taskLabel_create_tables:
  assumes "taskLabel_create e tid lid w = (r, w2)"
  shows "task_tbl (store w2) = task_tbl (store w)
       \<and> label_tbl (store w2) = label_tbl (store w)
       \<and> (case r of
            Inl err \<Rightarrow> taskLabel_tbl (store w2) = taskLabel_tbl (store w)
          | Inr row \<Rightarrow> taskLabel_tbl (store w2) = taskLabel_tbl (store w) @ [\<lparr>taskId = tid, labelId = lid\<rparr>])"
  using assms
  by (auto simp: taskLabel_create_def tick_def Let_def split: if_splits)

lemma taskLabel_create_duplicate_error:
  assumes "\<lparr>taskId = tid, labelId = lid\<rparr> \<in> set (taskLabel_tbl (store w))"
  shows "\<exists>err w2. taskLabel_create e tid lid w = (Inl err, w2)
           \<and> (\<not> fault e (calls w) \<longrightarrow> err = UniqueConstraintFailed)"
  using assms by (simp add: taskLabel_create_def Let_def)

text \<open>The lookup of a name that is present gives the same label after a step.\<close>

lemma step_keeps_lookup:
  assumes "find (\<lambda>l. label_name l = n) (label_tbl (store w)) = Some L"
    and "resolve_label e x w = (r, w1)"
    and "taskLabel_create e tid lid w1 = (r2, w2)"
  shows "find (\<lambda>l. label_name l = n) (label_tbl (store w2)) = Some L
       \<and> filter (\<lambda>l. label_name l = n) (label_tbl (store w2))
           = filter (\<lambda>l. label_name l = n) (label_tbl (store w))
       \<and> set (taskLabel_tbl (store w)) \<subseteq> set (taskLabel_tbl (store w2))
       \<and> task_tbl (store w2) = task_tbl (store w)"
proof -
  from resolve_label_tables [OF assms(2)]
  have t1: "task_tbl (store w1) = task_tbl (store w)"
    and a1: "taskLabel_tbl (store w1) = taskLabel_tbl (store w)"
    and l1: "label_tbl (store w1) = label_tbl (store w)
          \<or> (\<exists>row. label_tbl (store w1) = label_tbl (store w) @ [row]
                \<and> find (\<lambda>l. label_name l = label_name row) (label_tbl (store w)) = None)"
    by auto
  from taskLabel_create_tables [OF assms(3)]
  have t2: "task_tbl (store w2) = task_tbl (store w1)"
    and l2: "label_tbl (store w2) = label_tbl (store w1)"
    and a2: "set (taskLabel_tbl (store w1)) \<subseteq> set (taskLabel_tbl (store w2))"
    by (auto split: sum.splits)
  from l1 assms(1)
  have "find (\<lambda>l. label_name l = n) (label_tbl (store w1)) = Some L
      \<and> filter (\<lambda>l. label_name l = n) (label_tbl (store w1))
           = filter (\<lambda>l. label_name l = n) (label_tbl (store w))"
    by (auto simp: find_append_case)
  with t1 t2 l2 a1 a2 show ?thesis by simp
qed

lemma label_loop_keeps_lookup:
  assumes "find (\<lambda>l. label_name l = n) (label_tbl (store w)) = Some L"
    and "label_loop e tid ls w = (r, w')"
  shows "find (\<lambda>l. label_name l = n) (label_tbl (store w')) = Some L
       \<and> filter (\<lambda>l. label_name l = n) (label_tbl (store w'))
           = filter (\<lambda>l. label_name l = n) (label_tbl (store w))
       \<and> set (taskLabel_tbl (store w)) \<subseteq> set (taskLabel_tbl (store w'))"
  using assms
proof (induction ls arbitrary: w)
  case Nil
  then show ?case by simp
next
  case (Cons x rest)
  obtain r1 w1 where s1: "resolve_label e x w = (r1, w1)" by (cases "resolve_label e x w")
  show ?case
  proof (cases r1)
    case (Inl err)
    with s1 Cons.prems have "w' = w1" by simp
    moreover from resolve_label_tables [OF s1] Cons.prems(1)
    have "find (\<lambda>l. label_name l = n) (label_tbl (store w1)) = Some L
      \<and> filter (\<lambda>l. label_name l = n) (label_tbl (store w1))
           = filter (\<lambda>l. label_name l = n) (label_tbl (store w))
      \<and> taskLabel_tbl (store w1) = taskLabel_tbl (store w)"
      by (auto simp: find_append_case)
    ultimately show ?thesis by simp
  next
    case (Inr lid)
    obtain r2 w2 where s2: "taskLabel_create e tid lid w1 = (r2, w2)"
      by (cases "taskLabel_create e tid lid w1")
    note k = step_keeps_lookup [OF Cons.prems(1) s1 s2]
    show ?thesis
    proof (cases r2)
      case (Inl err)
      with s1 s2 Inr Cons.prems have "w' = w2" by simp
      with k show ?thesis by simp
    next
      case (Inr row)
      with s1 s2 \<open>r1 = Inr lid\<close> Cons.prems have "label_loop e tid rest w2 = (r, w')" by simp
      from Cons.IH [OF _ this] k show ?thesis by auto
    qed
  qed
qed

lemma task_create_tables:
  assumes "task_create e d w = (r, w1)"
  shows "label_tbl (store w1) = label_tbl (store w)
       \<and> taskLabel_tbl (store w1) = taskLabel_tbl (store w)"
  using assms
  by (auto simp: task_create_def tick_def Let_def split: option.splits if_splits)

text \<open>After a successful step for a named entry, a lookup of the name finds the attached label.\<close>

lemma step_establishes:
  assumes "name x = Some n"
    and "resolve_label e x w = (Inr lid, w1)"
    and "taskLabel_create e tid lid w1 = (Inr row, w2)"
  shows "\<exists>L. find (\<lambda>l. label_name l = n) (label_tbl (store w2)) = Some L
           \<and> \<lparr>taskId = tid, labelId = label_id L\<rparr> \<in> set (taskLabel_tbl (store w2))"
proof -
  from taskLabel_create_tables [OF assms(3)]
  have l2: "label_tbl (store w2) = label_tbl (store w1)"
    and a2: "\<lparr>taskId = tid, labelId = lid\<rparr> \<in> set (taskLabel_tbl (store w2))"
    by auto
  from assms(1,2) have "\<exists>L. find (\<lambda>l. label_name l = n) (label_tbl (store w1)) = Some L \<and> lid = label_id L"
    by (auto simp: resolve_label_def label_findFirst_def label_create_def tick_def Let_def
        find_append_case split: if_splits option.splits)
  with l2 a2 show ?thesis by auto
qed

text \<open>After the associations of a task are removed, no row refers to it.\<close>

lemma no_reference_left:
  "tid \<notin> set (map taskId (filter (\<lambda>r. taskId r \<noteq> tid) rows))"
  by (induction rows) auto

text \<open>The loop over two lists in a row.\<close>

lemma label_loop_append:
  "label_loop e tid (xs @ ys) w =
     (case label_loop e tid xs w of
        (Inl err, w1) \<Rightarrow> (Inl err, w1)
      | (Inr u, w1) \<Rightarrow> label_loop e tid ys w1)"
  by (induction xs arbitrary: w) (auto split: prod.splits sum.splits)

text \<open>
  A successful run of the loop has attached, for every named entry, the label that a
  lookup of the name finds afterwards.
\<close>

lemma label_loop_establishes:
  assumes "x \<in> set ls" and "name x = Some n"
    and "label_loop e tid ls w = (Inr u, w')"
  shows "\<exists>L. find (\<lambda>l. label_name l = n) (label_tbl (store w')) = Some L
           \<and> \<lparr>taskId = tid, labelId = label_id L\<rparr> \<in> set (taskLabel_tbl (store w'))"
  using assms
proof (induction ls arbitrary: w)
  case Nil
  then show ?case by simp
next
  case (Cons y rest)
  obtain r1 w1 where s1: "resolve_label e y w = (r1, w1)" by (cases "resolve_label e y w")
  from s1 Cons.prems(3) obtain lid where r1: "r1 = Inr lid"
    by (cases r1) auto
  obtain r2 w2 where s2: "taskLabel_create e tid lid w1 = (r2, w2)"
    by (cases "taskLabel_create e tid lid w1")
  from s1 r1 s2 Cons.prems(3) obtain row where r2: "r2 = Inr row"
    by (cases r2) auto
  from s1 r1 s2 r2 Cons.prems(3) have rest: "label_loop e tid rest w2 = (Inr u, w')"
    by simp
  show ?case
  proof (cases "y = x")
    case True
    from step_establishes [OF Cons.prems(2)] True s1 r1 s2 r2
    obtain L where L: "find (\<lambda>l. label_name l = n) (label_tbl (store w2)) = Some L"
      and a: "\<lparr>taskId = tid, labelId = label_id L\<rparr> \<in> set (taskLabel_tbl (store w2))"
      by blast
    from label_loop_keeps_lookup [OF L rest] a show ?thesis by blast
  next
    case False
    with Cons.prems(1) have "x \<in> set rest" by simp
    from Cons.IH [OF this Cons.prems(2) rest] show ?thesis .
  qed
qed

text \<open>For a name that was present before the loop, that label is the one found before.\<close>

lemma label_loop_attaches_existing:
  assumes "x \<in> set ls" and "name x = Some n"
    and "find (\<lambda>l. label_name l = n) (label_tbl (store w)) = Some L"
    and "label_loop e tid ls w = (Inr u, w')"
  shows "\<lparr>taskId = tid, labelId = label_id L\<rparr> \<in> set (taskLabel_tbl (store w'))"
proof -
  from label_loop_establishes [OF assms(1,2,4)]
  obtain L' where "find (\<lambda>l. label_name l = n) (label_tbl (store w')) = Some L'"
    and a: "\<lparr>taskId = tid, labelId = label_id L'\<rparr> \<in> set (taskLabel_tbl (store w'))"
    by blast
  with label_loop_keeps_lookup [OF assms(3,4)] have "L' = L" by simp
  with a show ?thesis by simp
qed

text \<open>
  When the loop reaches the second entry of a name, the lookup finds a label that is
  attached to the task already, and the insert of the association fails.
\<close>

lemma second_occurrence_collides:
  assumes "i < j" and "j < length ls"
    and "name (ls ! i) = Some n" and "name (ls ! j) = Some n"
    and "label_loop e tid (take j ls) w1 = (Inr u, wj)"
  shows "\<exists>L. find (\<lambda>l. label_name l = n) (label_tbl (store wj)) = Some L
           \<and> \<lparr>taskId = tid, labelId = label_id L\<rparr> \<in> set (taskLabel_tbl (store wj))
           \<and> (\<forall>lid w2. resolve_label e (ls ! j) wj = (Inr lid, w2) \<longrightarrow>
                 lid = label_id L
                 \<and> (\<exists>err w3. taskLabel_create e tid lid w2 = (Inl err, w3)
                       \<and> (\<not> fault e (calls w2) \<longrightarrow> err = UniqueConstraintFailed)))"
proof -
  from assms(1,2) have "ls ! i \<in> set (take j ls)"
    by (auto simp: in_set_conv_nth intro!: exI [of _ i])
  from label_loop_establishes [OF this assms(3,5)]
  obtain L where L: "find (\<lambda>l. label_name l = n) (label_tbl (store wj)) = Some L"
    and a: "\<lparr>taskId = tid, labelId = label_id L\<rparr> \<in> set (taskLabel_tbl (store wj))"
    by blast
  have "lid = label_id L
        \<and> (\<exists>err w3. taskLabel_create e tid lid w2 = (Inl err, w3)
              \<and> (\<not> fault e (calls w2) \<longrightarrow> err = UniqueConstraintFailed))"
    if r: "resolve_label e (ls ! j) wj = (Inr lid, w2)" for lid w2
  proof -
    from resolve_label_existing [OF assms(4) L r]
    have "store w2 = store wj" and "lid = label_id L" by auto
    with a taskLabel_create_duplicate_error [of tid lid w2 e] show ?thesis by simp
  qed
  with L a show ?thesis by blast
qed

lemma label_loop_fails_on_repeated_name:
  assumes "i < j" and "j < length ls"
    and "name (ls ! i) = Some n" and "name (ls ! j) = Some n"
  shows "\<exists>err w'. label_loop e tid ls w = (Inl err, w')"
proof -
  from assms(2) have split: "ls = take j ls @ (ls ! j) # drop (Suc j) ls"
    by (simp add: id_take_nth_drop)
  obtain r0 wj where s0: "label_loop e tid (take j ls) w = (r0, wj)"
    by (cases "label_loop e tid (take j ls) w")
  have "\<exists>err w'. label_loop e tid (take j ls @ (ls ! j) # drop (Suc j) ls) w = (Inl err, w')"
  proof (cases r0)
    case (Inl err)
    with s0 show ?thesis by (simp add: label_loop_append)
  next
    case (Inr u)
    obtain r1 w2 where s1: "resolve_label e (ls ! j) wj = (r1, w2)"
      by (cases "resolve_label e (ls ! j) wj")
    show ?thesis
    proof (cases r1)
      case (Inl err)
      with s0 s1 \<open>r0 = Inr u\<close> show ?thesis by (simp add: label_loop_append)
    next
      case (Inr lid)
      from second_occurrence_collides [OF assms] s0 s1 \<open>r0 = Inr u\<close> Inr
      obtain err w3 where "taskLabel_create e tid lid w2 = (Inl err, w3)" by blast
      with s0 s1 \<open>r0 = Inr u\<close> Inr show ?thesis by (simp add: label_loop_append)
    qed
  qed
  with split show ?thesis by simp
qed

lemma create_tx_fails_on_repeated_name:
  assumes "labels data = Some ls" and "i < j" and "j < length ls"
    and "name (ls ! i) = Some n" and "name (ls ! j) = Some n"
  shows "\<exists>err w1. create_tx e data due w = (Inl err, w1)"
proof -
  obtain r0 w0 where s0: "task_create e \<lparr>tcd_title = title data,
      tcd_description = description data, tcd_priority = priority data,
      tcd_status = status data, tcd_dueDate = due\<rparr> w = (r0, w0)"
    by (cases "task_create e \<lparr>tcd_title = title data,
      tcd_description = description data, tcd_priority = priority data,
      tcd_status = status data, tcd_dueDate = due\<rparr> w")
  show ?thesis
  proof (cases r0)
    case (Inl err)
    with s0 show ?thesis by (simp add: create_tx_def)
  next
    case (Inr createdTask)
    from label_loop_fails_on_repeated_name [OF assms(2-5), of e "task_id createdTask" w0]
    obtain err w' where "label_loop e (task_id createdTask) ls w0 = (Inl err, w')" by blast
    with s0 Inr assms(1) show ?thesis by (simp add: create_tx_def)
  qed
qed

section \<open>The claims\<close>

subsection \<open>C1: the label lookup compares the name only\<close>

text \<open>
  C1. During task creation, for every entry of the supplied label list and whatever colour
  the entry asks for:
  \<^item> in any state of the store in which a label of the entry's name exists, the lookup-or-create
    step of the loop leaves every row as it is and yields the identifier of an existing
    label of that name; it fails only when the engine fails in the lookup, and then with
    the engine's failure;
  \<^item> if a label of that name exists when the request arrives, the labels of that name are
    after the request exactly the rows they were before (no label row is created for the
    entry, and no colour is changed), and when the request creates the task, the
    association it stores for the entry carries the identifier of an existing label of
    that name.
\<close>

theorem POST_label_lookup_by_name_only:
  assumes "labels data = Some ls" and "x \<in> set ls" and "name x = Some n"
    and "l0 \<in> set (label_tbl (store w))" and "label_name l0 = n"
    and "POST e data w = (r, w')"
  shows "(\<forall>wk l1. l1 \<in> set (label_tbl (store wk)) \<and> label_name l1 = n \<longrightarrow>
            (\<exists>Lk \<in> set (label_tbl (store wk)). label_name Lk = n
               \<and> (\<forall>r1 w1. resolve_label e x wk = (r1, w1) \<longrightarrow>
                     store w1 = store wk \<and> (r1 = Inr (label_id Lk) \<or> r1 = Inl EngineFailure)
                     \<and> (r1 = Inl EngineFailure \<longleftrightarrow> fault e (calls wk)))))
       \<and> (\<exists>L \<in> set (label_tbl (store w)). label_name L = n
           \<and> filter (\<lambda>l. label_name l = n) (label_tbl (store w'))
               = filter (\<lambda>l. label_name l = n) (label_tbl (store w))
           \<and> (\<forall>task. http_body r = TaskJson task \<longrightarrow>
                 \<lparr>taskId = task_id task, labelId = label_id L\<rparr> \<in> set (taskLabel_tbl (store w'))))"
proof -
  have step: "\<exists>Lk \<in> set (label_tbl (store wk)). label_name Lk = n
               \<and> (\<forall>r1 w1. resolve_label e x wk = (r1, w1) \<longrightarrow>
                     store w1 = store wk \<and> (r1 = Inr (label_id Lk) \<or> r1 = Inl EngineFailure)
                     \<and> (r1 = Inl EngineFailure \<longleftrightarrow> fault e (calls wk)))"
    if "l1 \<in> set (label_tbl (store wk))" and "label_name l1 = n" for wk l1
  proof -
    from find_exists [of l1 "label_tbl (store wk)" "\<lambda>l. label_name l = n"] that
    obtain Lk where Lk: "find (\<lambda>l. label_name l = n) (label_tbl (store wk)) = Some Lk" by blast
    from find_in_set [OF Lk] have "Lk \<in> set (label_tbl (store wk))" and "label_name Lk = n"
      by simp_all
    moreover from resolve_label_existing_exact [OF assms(3) Lk, of e]
    have "\<forall>r1 w1. resolve_label e x wk = (r1, w1) \<longrightarrow>
            store w1 = store wk \<and> (r1 = Inr (label_id Lk) \<or> r1 = Inl EngineFailure)
                     \<and> (r1 = Inl EngineFailure \<longleftrightarrow> fault e (calls wk))"
      by (auto simp: tick_def)
    ultimately show ?thesis by blast
  qed
  from find_exists [of l0 "label_tbl (store w)" "\<lambda>l. label_name l = n"] assms(4,5)
  obtain L where L: "find (\<lambda>l. label_name l = n) (label_tbl (store w)) = Some L" by blast
  from find_in_set [OF L] have Lin: "L \<in> set (label_tbl (store w))" and Ln: "label_name L = n"
    by simp_all
  let ?keep = "filter (\<lambda>l. label_name l = n) (label_tbl (store w'))
               = filter (\<lambda>l. label_name l = n) (label_tbl (store w))"
  let ?att = "\<forall>task. http_body r = TaskJson task \<longrightarrow>
                 \<lparr>taskId = task_id task, labelId = label_id L\<rparr> \<in> set (taskLabel_tbl (store w'))"
  have "?keep \<and> ?att"
  proof (cases "dueDate_rejected e data")
    case True
    with assms(6) show ?thesis by (auto simp: POST_def)
  next
    case False
    obtain r0 w0 where tx: "create_tx e data (dueDate_of e data) w = (r0, w0)"
      by (cases "create_tx e data (dueDate_of e data) w")
    show ?thesis
    proof (cases r0)
      case (Inl err)
      with tx False assms(6) show ?thesis by (auto simp: POST_def transaction_def)
    next
      case (Inr task)
      with tx False assms(6)
      have r: "r = \<lparr>http_status = 200, http_body = TaskJson task\<rparr>" and w': "w' = w0"
        by (auto simp: POST_def transaction_def)
      from tx Inr assms(1) obtain w1 u
        where c: "task_create e \<lparr>tcd_title = title data, tcd_description = description data,
                    tcd_priority = priority data, tcd_status = status data,
                    tcd_dueDate = dueDate_of e data\<rparr> w = (Inr task, w1)"
          and l: "label_loop e (task_id task) ls w1 = (Inr u, w0)"
        by (auto simp: create_tx_def split: prod.splits sum.splits)
      from task_create_tables [OF c] have same: "label_tbl (store w1) = label_tbl (store w)"
        by simp
      with L have L1: "find (\<lambda>l. label_name l = n) (label_tbl (store w1)) = Some L" by simp
      from label_loop_keeps_lookup [OF L1 l] same w' have ?keep by simp
      moreover from label_loop_attaches_existing [OF assms(2,3) L1 l] r w' have ?att by simp
      ultimately show ?thesis ..
    qed
  qed
  with Lin Ln have "L \<in> set (label_tbl (store w)) \<and> label_name L = n \<and> ?keep \<and> ?att"
    by simp
  then have "\<exists>L \<in> set (label_tbl (store w)). label_name L = n
           \<and> filter (\<lambda>l. label_name l = n) (label_tbl (store w'))
               = filter (\<lambda>l. label_name l = n) (label_tbl (store w))
           \<and> (\<forall>task. http_body r = TaskJson task \<longrightarrow>
                 \<lparr>taskId = task_id task, labelId = label_id L\<rparr> \<in> set (taskLabel_tbl (store w')))"
    by blast
  moreover from step have "\<forall>wk l1. l1 \<in> set (label_tbl (store wk)) \<and> label_name l1 = n \<longrightarrow>
            (\<exists>Lk \<in> set (label_tbl (store wk)). label_name Lk = n
               \<and> (\<forall>r1 w1. resolve_label e x wk = (r1, w1) \<longrightarrow>
                     store w1 = store wk \<and> (r1 = Inr (label_id Lk) \<or> r1 = Inl EngineFailure)
                     \<and> (r1 = Inl EngineFailure \<longleftrightarrow> fault e (calls wk))))"
    by blast
  ultimately show ?thesis by (rule conjI [rotated])
qed

text \<open>
  C1 at a concrete request: the store holds the label \<^verbatim>\<open>work\<close> in \<^verbatim>\<open>#ff0000\<close>, the request
  asks for \<^verbatim>\<open>work\<close> in \<^verbatim>\<open>#00ff00\<close>. The label table is unchanged and the new task is
  attached to the old label.
\<close>

theorem POST_label_lookup_by_name_only_witness:
  "POST sample_env
     \<lparr>title = Some ''plan'', description = None, priority = None, status = None, dueDate = None,
      labels = Some [\<lparr>name = Some ''work'', color = Some ''#00ff00''\<rparr>]\<rparr> seeded_world =
     (\<lparr>http_status = 200, http_body = TaskJson
         \<lparr>task_id = ''c'', task_title = ''plan'', task_description = None,
          task_priority = ''MEDIUM'', task_status = ''TODO'', task_dueDate = None,
          task_createdAt = 1700000000000, task_updatedAt = 1700000000000\<rparr>\<rparr>,
      \<lparr>store = \<lparr>task_tbl = task_tbl (store seeded_world) @
           [\<lparr>task_id = ''c'', task_title = ''plan'', task_description = None,
             task_priority = ''MEDIUM'', task_status = ''TODO'', task_dueDate = None,
             task_createdAt = 1700000000000, task_updatedAt = 1700000000000\<rparr>],
         label_tbl = label_tbl (store seeded_world),
         taskLabel_tbl = taskLabel_tbl (store seeded_world) @ [\<lparr>taskId = ''c'', labelId = ''l1''\<rparr>]\<rparr>,
       calls = 3\<rparr>)
   \<and> (\<exists>L \<in> set (label_tbl (store seeded_world)). label_name L = ''work''
         \<and> label_color L \<noteq> ''#00ff00''
         \<and> \<lparr>taskId = ''c'', labelId = label_id L\<rparr>
              \<in> set (taskLabel_tbl (store (snd (POST sample_env
     \<lparr>title = Some ''plan'', description = None, priority = None, status = None, dueDate = None,
      labels = Some [\<lparr>name = Some ''work'', color = Some ''#00ff00''\<rparr>]\<rparr> seeded_world)))))"
proof -
  let ?d = "\<lparr>title = Some ''plan'', description = None, priority = None, status = None,
             dueDate = None, labels = Some [\<lparr>name = Some ''work'', color = Some ''#00ff00''\<rparr>]\<rparr>"
  let ?x = "\<lparr>name = Some ''work'', color = Some ''#00ff00''\<rparr>"
  let ?l0 = "\<lparr>label_id = ''l1'', label_name = ''work'', label_color = ''#ff0000'',
              label_createdAt = 1690000000000, label_updatedAt = 1690000000000\<rparr>"
  have h1: "labels ?d = Some [?x]" by simp
  have h2: "?x \<in> set [?x]" by simp
  have h3: "name ?x = Some ''work''" by simp
  have h4: "?l0 \<in> set (label_tbl (store seeded_world))" by (simp add: seeded_world_def)
  have h5: "label_name ?l0 = ''work''" by simp
  have h6: "POST sample_env ?d seeded_world =
     (\<lparr>http_status = 200, http_body = TaskJson
         \<lparr>task_id = ''c'', task_title = ''plan'', task_description = None,
          task_priority = ''MEDIUM'', task_status = ''TODO'', task_dueDate = None,
          task_createdAt = 1700000000000, task_updatedAt = 1700000000000\<rparr>\<rparr>,
      \<lparr>store = \<lparr>task_tbl = task_tbl (store seeded_world) @
           [\<lparr>task_id = ''c'', task_title = ''plan'', task_description = None,
             task_priority = ''MEDIUM'', task_status = ''TODO'', task_dueDate = None,
             task_createdAt = 1700000000000, task_updatedAt = 1700000000000\<rparr>],
         label_tbl = label_tbl (store seeded_world),
         taskLabel_tbl = taskLabel_tbl (store seeded_world) @ [\<lparr>taskId = ''c'', labelId = ''l1''\<rparr>]\<rparr>,
       calls = 3\<rparr>)"
    by (simp add: eval_defs)
  from POST_label_lookup_by_name_only [OF h1 h2 h3 h4 h5 h6] h6
  show ?thesis by (auto simp: seeded_world_def)
qed

subsection \<open>C2: a priority outside LOW, MEDIUM, HIGH\<close>

text \<open>
  C2 says that a request whose priority is not one of \<^verbatim>\<open>LOW\<close>, \<^verbatim>\<open>MEDIUM\<close>, \<^verbatim>\<open>HIGH\<close> is
  rejected and stores no task. \<^verbatim>\<open>CreateTaskSchema\<close> refuses such a request, but the handler
  never applies the schema: the request with priority \<^verbatim>\<open>URGENT\<close> is answered with status
  200 and its task is stored with that priority.
\<close>

theorem POST_priority_URGENT_persisted:
  "\<not> CreateTaskSchema sample_env
        \<lparr>title = Some ''t'', description = None, priority = Some ''URGENT'',
         status = None, dueDate = None, labels = None\<rparr>
   \<and> POST sample_env \<lparr>title = Some ''t'', description = None, priority = Some ''URGENT'',
             status = None, dueDate = None, labels = None\<rparr> empty_world =
       (\<lparr>http_status = 200, http_body = TaskJson
           \<lparr>task_id = ''c'', task_title = ''t'', task_description = None,
            task_priority = ''URGENT'', task_status = ''TODO'', task_dueDate = None,
            task_createdAt = 1700000000000, task_updatedAt = 1700000000000\<rparr>\<rparr>,
        \<lparr>store = \<lparr>task_tbl =
           [\<lparr>task_id = ''c'', task_title = ''t'', task_description = None,
            task_priority = ''URGENT'', task_status = ''TODO'', task_dueDate = None,
            task_createdAt = 1700000000000, task_updatedAt = 1700000000000\<rparr>],
           label_tbl = [], taskLabel_tbl = []\<rparr>, calls = 1\<rparr>)"
  by (simp add: CreateTaskSchema_def eval_defs)

subsection \<open>C3: a failure inside the transaction\<close>

text \<open>
  C3. For every create request that reaches the transaction, if a step of the transaction
  fails, the answer is status 500 with the body \<^verbatim>\<open>{error: "Failed to create task"}\<close>, and
  the stored rows are those of before the request: no task, label or association of the
  request persists. The failing step is the insert of the task, or, for a label \<open>x\<close> of the
  list that the loop reaches after the labels \<open>pre\<close> before it went through, the lookup
  of the label, the creation of the label after a lookup that found none, the resolution
  of the label as a whole, or the insert of the association.
\<close>

theorem POST_transaction_failure_rolls_back:
  assumes "\<not> dueDate_rejected e data"
    and "tcd = \<lparr>tcd_title = title data, tcd_description = description data,
                 tcd_priority = priority data, tcd_status = status data,
                 tcd_dueDate = dueDate_of e data\<rparr>"
    and "items = (case labels data of None \<Rightarrow> [] | Some ls \<Rightarrow> ls)"
    and "task_create e tcd w = (Inl err, w')
       \<or> (task_create e tcd w = (Inr task, w1) \<and> items = pre @ x # rest
          \<and> label_loop e (task_id task) pre w1 = (Inr u, wk)
          \<and> (label_findFirst e (name x) wk = (Inl err, w')
             \<or> (label_findFirst e (name x) wk = (Inr None, w2)
                \<and> label_create e (name x)
                     (if truthy (color x) then the (color x) else ''#3b82f6'') w2 = (Inl err, w'))
             \<or> resolve_label e x wk = (Inl err, w')
             \<or> (resolve_label e x wk = (Inr lid, w2)
                \<and> taskLabel_create e (task_id task) lid w2 = (Inl err, w'))))"
  shows "POST e data w =
           (\<lparr>http_status = 500, http_body = ErrorJson ''Failed to create task''\<rparr>,
            w'\<lparr>store := store w\<rparr>)
       \<and> store (snd (POST e data w)) = store w"
proof -
  have "create_tx e data (dueDate_of e data) w = (Inl err, w')"
    using assms(4)
  proof (elim disjE conjE)
    assume "task_create e tcd w = (Inl err, w')"
    with assms(2) show ?thesis by (simp add: create_tx_def)
  next
    assume c: "task_create e tcd w = (Inr task, w1)" and i: "items = pre @ x # rest"
      and p: "label_loop e (task_id task) pre w1 = (Inr u, wk)"
      and "label_findFirst e (name x) wk = (Inl err, w')"
    then have "label_loop e (task_id task) (pre @ x # rest) w1 = (Inl err, w')"
      by (simp add: label_loop_append resolve_label_def)
    with c i assms(2,3) show ?thesis by (simp add: create_tx_def)
  next
    assume c: "task_create e tcd w = (Inr task, w1)" and i: "items = pre @ x # rest"
      and p: "label_loop e (task_id task) pre w1 = (Inr u, wk)"
      and "label_findFirst e (name x) wk = (Inr None, w2)"
      and "label_create e (name x)
             (if truthy (color x) then the (color x) else ''#3b82f6'') w2 = (Inl err, w')"
    then have "label_loop e (task_id task) (pre @ x # rest) w1 = (Inl err, w')"
      by (simp add: label_loop_append resolve_label_def)
    with c i assms(2,3) show ?thesis by (simp add: create_tx_def)
  next
    assume c: "task_create e tcd w = (Inr task, w1)" and i: "items = pre @ x # rest"
      and p: "label_loop e (task_id task) pre w1 = (Inr u, wk)"
      and "resolve_label e x wk = (Inl err, w')"
    then have "label_loop e (task_id task) (pre @ x # rest) w1 = (Inl err, w')"
      by (simp add: label_loop_append)
    with c i assms(2,3) show ?thesis by (simp add: create_tx_def)
  next
    assume c: "task_create e tcd w = (Inr task, w1)" and i: "items = pre @ x # rest"
      and p: "label_loop e (task_id task) pre w1 = (Inr u, wk)"
      and "resolve_label e x wk = (Inr lid, w2)"
      and "taskLabel_create e (task_id task) lid w2 = (Inl err, w')"
    then have "label_loop e (task_id task) (pre @ x # rest) w1 = (Inl err, w')"
      by (simp add: label_loop_append)
    with c i assms(2,3) show ?thesis by (simp add: create_tx_def)
  qed
  with assms(1) show ?thesis by (simp add: POST_def transaction_def)
qed

text \<open>
  C3 at concrete requests on the empty store, with one new label: the engine fails in the
  first, second, third or fourth storage call, that is in the insert of the task, in the
  lookup, in the creation of the label, or in the insert of the association. In the last
  case the callback had inserted the task and the label; in no case is a row stored after
  the request.
\<close>

theorem POST_transaction_failure_rolls_back_witness:
  "POST (sample_env\<lparr>fault := (\<lambda>k. k = 0)\<rparr>)
        \<lparr>title = Some ''call home'', description = None, priority = None, status = None,
         dueDate = None, labels = Some [\<lparr>name = Some ''home'', color = None\<rparr>]\<rparr>
        empty_world =
       (\<lparr>http_status = 500, http_body = ErrorJson ''Failed to create task''\<rparr>,
        \<lparr>store = \<lparr>task_tbl = [], label_tbl = [], taskLabel_tbl = []\<rparr>, calls = 1\<rparr>)
   \<and> POST (sample_env\<lparr>fault := (\<lambda>k. k = 1)\<rparr>)
        \<lparr>title = Some ''call home'', description = None, priority = None, status = None,
         dueDate = None, labels = Some [\<lparr>name = Some ''home'', color = None\<rparr>]\<rparr>
        empty_world =
       (\<lparr>http_status = 500, http_body = ErrorJson ''Failed to create task''\<rparr>,
        \<lparr>store = \<lparr>task_tbl = [], label_tbl = [], taskLabel_tbl = []\<rparr>, calls = 2\<rparr>)
   \<and> POST (sample_env\<lparr>fault := (\<lambda>k. k = 2)\<rparr>)
        \<lparr>title = Some ''call home'', description = None, priority = None, status = None,
         dueDate = None, labels = Some [\<lparr>name = Some ''home'', color = None\<rparr>]\<rparr>
        empty_world =
       (\<lparr>http_status = 500, http_body = ErrorJson ''Failed to create task''\<rparr>,
        \<lparr>store = \<lparr>task_tbl = [], label_tbl = [], taskLabel_tbl = []\<rparr>, calls = 3\<rparr>)
   \<and> create_tx (sample_env\<lparr>fault := (\<lambda>k. k = 3)\<rparr>)
        \<lparr>title = Some ''call home'', description = None, priority = None, status = None,
         dueDate = None, labels = Some [\<lparr>name = Some ''home'', color = None\<rparr>]\<rparr>
        None empty_world =
       (Inl EngineFailure,
        \<lparr>store = \<lparr>task_tbl =
           [\<lparr>task_id = ''c'', task_title = ''call home'', task_description = None,
             task_priority = ''MEDIUM'', task_status = ''TODO'', task_dueDate = None,
             task_createdAt = 1700000000000, task_updatedAt = 1700000000000\<rparr>],
           label_tbl =
           [\<lparr>label_id = ''ccc'', label_name = ''home'', label_color = ''#3b82f6'',
             label_createdAt = 1700000000002, label_updatedAt = 1700000000002\<rparr>],
           taskLabel_tbl = []\<rparr>, calls = 4\<rparr>)
   \<and> POST (sample_env\<lparr>fault := (\<lambda>k. k = 3)\<rparr>)
        \<lparr>title = Some ''call home'', description = None, priority = None, status = None,
         dueDate = None, labels = Some [\<lparr>name = Some ''home'', color = None\<rparr>]\<rparr>
        empty_world =
       (\<lparr>http_status = 500, http_body = ErrorJson ''Failed to create task''\<rparr>,
        \<lparr>store = \<lparr>task_tbl = [], label_tbl = [], taskLabel_tbl = []\<rparr>, calls = 4\<rparr>)"
proof -
  let ?x = "\<lparr>name = Some ''home'', color = None\<rparr>"
  let ?d = "\<lparr>title = Some ''call home'', description = None, priority = None, status = None,
         dueDate = None, labels = Some [?x]\<rparr>"
  let ?tcd = "\<lparr>tcd_title = Some ''call home'', tcd_description = None, tcd_priority = None,
         tcd_status = None, tcd_dueDate = None\<rparr>"
  let ?task = "\<lparr>task_id = ''c'', task_title = ''call home'', task_description = None,
             task_priority = ''MEDIUM'', task_status = ''TODO'', task_dueDate = None,
             task_createdAt = 1700000000000, task_updatedAt = 1700000000000\<rparr>"
  let ?label = "\<lparr>label_id = ''ccc'', label_name = ''home'', label_color = ''#3b82f6'',
             label_createdAt = 1700000000002, label_updatedAt = 1700000000002\<rparr>"
  let ?s1 = "\<lparr>task_tbl = [?task], label_tbl = [], taskLabel_tbl = []\<rparr>"
  let ?s3 = "\<lparr>task_tbl = [?task], label_tbl = [?label], taskLabel_tbl = []\<rparr>"
  have rej: "\<not> dueDate_rejected (sample_env\<lparr>fault := f\<rparr>) ?d" for f
    by (simp add: dueDate_rejected_def truthy_def)
  have tcd: "?tcd = \<lparr>tcd_title = title ?d, tcd_description = description ?d,
                 tcd_priority = priority ?d, tcd_status = status ?d,
                 tcd_dueDate = dueDate_of (sample_env\<lparr>fault := f\<rparr>) ?d\<rparr>" for f
    by (simp add: dueDate_of_def truthy_def)
  have items: "[?x] = (case labels ?d of None \<Rightarrow> [] | Some ls \<Rightarrow> ls)" by simp
  have due: "dueDate_of (sample_env\<lparr>fault := f\<rparr>) ?d = None" for f
    by (simp add: dueDate_of_def truthy_def)
  note ev = task_create_def label_findFirst_def label_create_def taskLabel_create_def
    resolve_label_def truthy_def tick_def sample_env_def empty_world_def Let_def
  \<comment> \<open>the task insert fails\<close>
  have "task_create (sample_env\<lparr>fault := (\<lambda>k. k = 0)\<rparr>) ?tcd empty_world =
          (Inl EngineFailure, \<lparr>store = store empty_world, calls = 1\<rparr>)"
    by (simp add: ev)
  then have p0: "POST (sample_env\<lparr>fault := (\<lambda>k. k = 0)\<rparr>) ?d empty_world =
          (\<lparr>http_status = 500, http_body = ErrorJson ''Failed to create task''\<rparr>,
           \<lparr>store = store empty_world, calls = 1\<rparr>)"
    using POST_transaction_failure_rolls_back [OF rej tcd items disjI1, of "\<lambda>k. k = 0" empty_world EngineFailure
        "\<lparr>store = store empty_world, calls = 1\<rparr>"]
    by simp
  \<comment> \<open>the lookup fails\<close>
  have "task_create (sample_env\<lparr>fault := (\<lambda>k. k = 1)\<rparr>) ?tcd empty_world =
          (Inr ?task, \<lparr>store = ?s1, calls = 1\<rparr>)
      \<and> [?x] = [] @ ?x # []
      \<and> label_loop (sample_env\<lparr>fault := (\<lambda>k. k = 1)\<rparr>) (task_id ?task) []
            \<lparr>store = ?s1, calls = 1\<rparr> = (Inr (), \<lparr>store = ?s1, calls = 1\<rparr>)
      \<and> label_findFirst (sample_env\<lparr>fault := (\<lambda>k. k = 1)\<rparr>) (name ?x)
            \<lparr>store = ?s1, calls = 1\<rparr> = (Inl EngineFailure, \<lparr>store = ?s1, calls = 2\<rparr>)"
    by (simp add: ev)
  then have p1: "POST (sample_env\<lparr>fault := (\<lambda>k. k = 1)\<rparr>) ?d empty_world =
          (\<lparr>http_status = 500, http_body = ErrorJson ''Failed to create task''\<rparr>,
           \<lparr>store = store empty_world, calls = 2\<rparr>)"
    using POST_transaction_failure_rolls_back [OF rej tcd items disjI2, of "\<lambda>k. k = 1" empty_world ?task
        "\<lparr>store = ?s1, calls = 1\<rparr>" "[]" ?x "[]" "()" "\<lparr>store = ?s1, calls = 1\<rparr>"
        EngineFailure "\<lparr>store = ?s1, calls = 2\<rparr>"]
    by simp
  \<comment> \<open>the lookup finds nothing and the creation of the label fails\<close>
  have "task_create (sample_env\<lparr>fault := (\<lambda>k. k = 2)\<rparr>) ?tcd empty_world =
          (Inr ?task, \<lparr>store = ?s1, calls = 1\<rparr>)
      \<and> [?x] = [] @ ?x # []
      \<and> label_loop (sample_env\<lparr>fault := (\<lambda>k. k = 2)\<rparr>) (task_id ?task) []
            \<lparr>store = ?s1, calls = 1\<rparr> = (Inr (), \<lparr>store = ?s1, calls = 1\<rparr>)
      \<and> label_findFirst (sample_env\<lparr>fault := (\<lambda>k. k = 2)\<rparr>) (name ?x)
            \<lparr>store = ?s1, calls = 1\<rparr> = (Inr None, \<lparr>store = ?s1, calls = 2\<rparr>)
      \<and> label_create (sample_env\<lparr>fault := (\<lambda>k. k = 2)\<rparr>) (name ?x)
            (if truthy (color ?x) then the (color ?x) else ''#3b82f6'')
            \<lparr>store = ?s1, calls = 2\<rparr> = (Inl EngineFailure, \<lparr>store = ?s1, calls = 3\<rparr>)"
    by (simp add: ev)
  then have p2: "POST (sample_env\<lparr>fault := (\<lambda>k. k = 2)\<rparr>) ?d empty_world =
          (\<lparr>http_status = 500, http_body = ErrorJson ''Failed to create task''\<rparr>,
           \<lparr>store = store empty_world, calls = 3\<rparr>)"
    using POST_transaction_failure_rolls_back [OF rej tcd items disjI2, of "\<lambda>k. k = 2" empty_world ?task
        "\<lparr>store = ?s1, calls = 1\<rparr>" "[]" ?x "[]" "()" "\<lparr>store = ?s1, calls = 1\<rparr>"
        EngineFailure "\<lparr>store = ?s1, calls = 3\<rparr>" "\<lparr>store = ?s1, calls = 2\<rparr>"]
    by simp
  \<comment> \<open>the label is created and the insert of the association fails\<close>
  have "task_create (sample_env\<lparr>fault := (\<lambda>k. k = 3)\<rparr>) ?tcd empty_world =
          (Inr ?task, \<lparr>store = ?s1, calls = 1\<rparr>)
      \<and> [?x] = [] @ ?x # []
      \<and> label_loop (sample_env\<lparr>fault := (\<lambda>k. k = 3)\<rparr>) (task_id ?task) []
            \<lparr>store = ?s1, calls = 1\<rparr> = (Inr (), \<lparr>store = ?s1, calls = 1\<rparr>)
      \<and> resolve_label (sample_env\<lparr>fault := (\<lambda>k. k = 3)\<rparr>) ?x
            \<lparr>store = ?s1, calls = 1\<rparr> = (Inr ''ccc'', \<lparr>store = ?s3, calls = 3\<rparr>)
      \<and> taskLabel_create (sample_env\<lparr>fault := (\<lambda>k. k = 3)\<rparr>) (task_id ?task) ''ccc''
            \<lparr>store = ?s3, calls = 3\<rparr> = (Inl EngineFailure, \<lparr>store = ?s3, calls = 4\<rparr>)"
    by (simp add: ev)
  then have p3: "POST (sample_env\<lparr>fault := (\<lambda>k. k = 3)\<rparr>) ?d empty_world =
          (\<lparr>http_status = 500, http_body = ErrorJson ''Failed to create task''\<rparr>,
           \<lparr>store = store empty_world, calls = 4\<rparr>)"
    using POST_transaction_failure_rolls_back [OF rej tcd items disjI2, of "\<lambda>k. k = 3" empty_world ?task
        "\<lparr>store = ?s1, calls = 1\<rparr>" "[]" ?x "[]" "()" "\<lparr>store = ?s1, calls = 1\<rparr>"
        EngineFailure "\<lparr>store = ?s3, calls = 4\<rparr>" "\<lparr>store = ?s3, calls = 3\<rparr>" "''ccc''"]
    by simp
  have tx: "create_tx (sample_env\<lparr>fault := (\<lambda>k. k = 3)\<rparr>) ?d None empty_world =
       (Inl EngineFailure, \<lparr>store = ?s3, calls = 4\<rparr>)"
    by (simp add: create_tx_def ev)
  from p0 p1 p2 p3 tx show ?thesis by (simp add: empty_world_def)
qed

subsection \<open>C4: the filters of a list request\<close>

text \<open>
  C4. For every list request that the storage engine answers, a task is returned if and
  only if it is stored and satisfies every filter category that is given, a category
  being satisfied by any of its values: some associated label has one of the given
  names, the status is one of the given statuses, the priority is one of the given
  priorities. Without filters every stored task is returned.
\<close>

theorem GET_filters_conjunctive:
  assumes "\<not> fault e (calls w)"
  shows "\<exists>tasks. GET e labelNames statuses priorities w =
             (\<lparr>http_status = 200, http_body = TasksJson tasks\<rparr>, tick w)
           \<and> (\<forall>t. t \<in> set (map fst tasks) \<longleftrightarrow>
                 t \<in> set (task_tbl (store w))
                 \<and> (labelNames \<noteq> [] \<longrightarrow>
                     (\<exists>tl \<in> set (taskLabel_tbl (store w)). taskId tl = task_id t
                        \<and> (\<exists>l \<in> set (label_tbl (store w)).
                              label_id l = labelId tl \<and> label_name l \<in> set labelNames)))
                 \<and> (statuses \<noteq> [] \<longrightarrow> task_status t \<in> set statuses)
                 \<and> (priorities \<noteq> [] \<longrightarrow> task_priority t \<in> set priorities))"
  using assms
  by (auto simp: GET_def task_findMany_def whereClause_def where_matches_def Let_def
      list_ex_iff image_iff split: option.splits)

text \<open>
  C4 at concrete requests: \<^verbatim>\<open>?status=DONE&status=TODO\<close> returns both tasks (the one without
  due date first), adding \<^verbatim>\<open>priority=HIGH\<close> leaves the high-priority task, and
  \<^verbatim>\<open>?label=home\<close> returns nothing.
\<close>

theorem GET_filters_conjunctive_witness:
  "\<not> fault sample_env (calls seeded_world)
   \<and> GET sample_env [] [''DONE'', ''TODO''] [] seeded_world =
       (\<lparr>http_status = 200, http_body = TasksJson
          [(task_tbl (store seeded_world) ! 1, []),
           (task_tbl (store seeded_world) ! 0,
            [(\<lparr>taskId = ''t1'', labelId = ''l1''\<rparr>, label_tbl (store seeded_world) ! 0)])]\<rparr>,
        tick seeded_world)
   \<and> GET sample_env [] [''DONE'', ''TODO''] [''HIGH''] seeded_world =
       (\<lparr>http_status = 200, http_body = TasksJson
          [(task_tbl (store seeded_world) ! 0,
            [(\<lparr>taskId = ''t1'', labelId = ''l1''\<rparr>, label_tbl (store seeded_world) ! 0)])]\<rparr>,
        tick seeded_world)
   \<and> GET sample_env [''home''] [] [] seeded_world =
       (\<lparr>http_status = 200, http_body = TasksJson []\<rparr>, tick seeded_world)"
proof -
  have h: "\<not> fault sample_env (calls seeded_world)" by (simp add: sample_env_def)
  from GET_filters_conjunctive [OF h, of "[]" "[''DONE'', ''TODO'']" "[''HIGH'']"] h
  show ?thesis
    by (simp add: GET_def task_findMany_def whereClause_def where_matches_def include_labels_def
        Let_def tick_def sample_env_def seeded_world_def)
qed

subsection \<open>C5: the two steps of a delete\<close>

text \<open>
  C5. For a delete request with an identifier, when the engine answers the first call:
  the operation first removes every association of the given task and then the task row,
  outside any transaction.
  \<^item> The first call removes exactly the associations of the task.
  \<^item> If the second call then fails, for whatever reason, the answer is status 500 and the
    store stays as the first call left it: the associations removed, the task table
    untouched. So it is when the engine fails in the second call.
  \<^item> If the engine answers the second call and the task is stored, the answer is status 200
    with the task's row, and the row and its associations are removed.
  \<^item> If the task is not stored, the second call fails with the record not found.
\<close>

theorem DELETE_two_steps_not_atomic:
  assumes "tid \<noteq> []" and "\<not> fault e (calls w)"
    and "remaining = filter (\<lambda>r. taskId r \<noteq> tid) (taskLabel_tbl (store w))"
  shows "taskLabel_deleteMany e tid w =
           (Inr (length (filter (\<lambda>r. taskId r = tid) (taskLabel_tbl (store w)))),
            \<lparr>store = (store w)\<lparr>taskLabel_tbl := remaining\<rparr>, calls = Suc (calls w)\<rparr>)
    \<and> (\<forall>n w1 err w2. taskLabel_deleteMany e tid w = (Inr n, w1)
           \<and> task_delete e tid w1 = (Inl err, w2) \<longrightarrow>
         DELETE e (Some tid) w =
           (\<lparr>http_status = 500, http_body = ErrorDetailsJson ''Failed to delete task'' err\<rparr>, w2)
         \<and> store w2 = (store w)\<lparr>taskLabel_tbl := remaining\<rparr>)
    \<and> (fault e (Suc (calls w)) \<longrightarrow>
         DELETE e (Some tid) w =
           (\<lparr>http_status = 500,
             http_body = ErrorDetailsJson ''Failed to delete task'' EngineFailure\<rparr>,
            \<lparr>store = (store w)\<lparr>taskLabel_tbl := remaining\<rparr>, calls = Suc (Suc (calls w))\<rparr>))
    \<and> (\<forall>t. \<not> fault e (Suc (calls w))
           \<and> find (\<lambda>t. task_id t = tid) (task_tbl (store w)) = Some t \<longrightarrow>
         DELETE e (Some tid) w =
           (\<lparr>http_status = 200,
             http_body = DeletedJson True ''Task deleted successfully'' t\<rparr>,
            \<lparr>store = (store w)\<lparr>task_tbl := filter (\<lambda>t. task_id t \<noteq> tid) (task_tbl (store w)),
                               taskLabel_tbl := remaining\<rparr>,
             calls = Suc (Suc (calls w))\<rparr>))
    \<and> (\<not> fault e (Suc (calls w))
           \<and> find (\<lambda>t. task_id t = tid) (task_tbl (store w)) = None \<longrightarrow>
         DELETE e (Some tid) w =
           (\<lparr>http_status = 500,
             http_body = ErrorDetailsJson ''Failed to delete task'' RecordNotFound\<rparr>,
            \<lparr>store = (store w)\<lparr>taskLabel_tbl := remaining\<rparr>, calls = Suc (Suc (calls w))\<rparr>))"
proof -
  let ?w1 = "\<lparr>store = (store w)\<lparr>taskLabel_tbl := remaining\<rparr>, calls = Suc (calls w)\<rparr>"
  have first: "taskLabel_deleteMany e tid w =
      (Inr (length (filter (\<lambda>r. taskId r = tid) (taskLabel_tbl (store w)))), ?w1)"
    using assms(2,3) by (cases w) (simp add: taskLabel_deleteMany_def tick_def Let_def)
  have del: "DELETE e (Some tid) w =
      (case task_delete e tid ?w1 of
         (Inl err, w2) \<Rightarrow>
           (\<lparr>http_status = 500, http_body = ErrorDetailsJson ''Failed to delete task'' err\<rparr>, w2)
       | (Inr deletedTask, w2) \<Rightarrow>
           (\<lparr>http_status = 200,
             http_body = DeletedJson True ''Task deleted successfully'' deletedTask\<rparr>, w2))"
    using assms(1) first by (simp add: DELETE_def truthy_def)
  have keep: "store w2 = store ?w1" if "task_delete e tid ?w1 = (Inl err, w2)" for err w2
    using that
    by (auto simp: task_delete_def tick_def Let_def split: if_splits option.splits)
  have fails: "DELETE e (Some tid) w =
           (\<lparr>http_status = 500, http_body = ErrorDetailsJson ''Failed to delete task'' err\<rparr>, w2)
         \<and> store w2 = (store w)\<lparr>taskLabel_tbl := remaining\<rparr>"
    if "taskLabel_deleteMany e tid w = (Inr n, w1)" and "task_delete e tid w1 = (Inl err, w2)"
    for n w1 err w2
  proof -
    from that(1) first have "w1 = ?w1" by simp
    with that(2) have "task_delete e tid ?w1 = (Inl err, w2)" by simp
    with del keep [OF this] show ?thesis by simp
  qed
  have faulty: "DELETE e (Some tid) w =
           (\<lparr>http_status = 500,
             http_body = ErrorDetailsJson ''Failed to delete task'' EngineFailure\<rparr>,
            \<lparr>store = (store w)\<lparr>taskLabel_tbl := remaining\<rparr>, calls = Suc (Suc (calls w))\<rparr>)"
    if "fault e (Suc (calls w))"
    using that del by (simp add: task_delete_def tick_def Let_def)
  have found: "DELETE e (Some tid) w =
           (\<lparr>http_status = 200,
             http_body = DeletedJson True ''Task deleted successfully'' t\<rparr>,
            \<lparr>store = (store w)\<lparr>task_tbl := filter (\<lambda>t. task_id t \<noteq> tid) (task_tbl (store w)),
                               taskLabel_tbl := remaining\<rparr>,
             calls = Suc (Suc (calls w))\<rparr>)"
    if "\<not> fault e (Suc (calls w))"
      and "find (\<lambda>t. task_id t = tid) (task_tbl (store w)) = Some t" for t
    using that del assms(3) no_reference_left [of tid "taskLabel_tbl (store w)"]
    by (simp add: task_delete_def tick_def Let_def)
  have missing: "DELETE e (Some tid) w =
           (\<lparr>http_status = 500,
             http_body = ErrorDetailsJson ''Failed to delete task'' RecordNotFound\<rparr>,
            \<lparr>store = (store w)\<lparr>taskLabel_tbl := remaining\<rparr>, calls = Suc (Suc (calls w))\<rparr>)"
    if "\<not> fault e (Suc (calls w))"
      and "find (\<lambda>t. task_id t = tid) (task_tbl (store w)) = None"
    using that del by (simp add: task_delete_def tick_def Let_def)
  from first fails faulty found missing show ?thesis by blast
qed

text \<open>
  C5 at concrete requests: when the engine fails in the second storage call, task \<^verbatim>\<open>t1\<close> is
  still stored and its association is not; without a failure the task and its association
  are both removed and the answer is 200 with the row; an unknown identifier is answered
  500 and leaves every row.
\<close>

theorem DELETE_two_steps_not_atomic_witness:
  "DELETE (sample_env\<lparr>fault := (\<lambda>k. k = 1)\<rparr>) (Some ''t1'') seeded_world =
     (\<lparr>http_status = 500, http_body = ErrorDetailsJson ''Failed to delete task'' EngineFailure\<rparr>,
      \<lparr>store = (store seeded_world)\<lparr>taskLabel_tbl := []\<rparr>, calls = 2\<rparr>)
   \<and> task_tbl (store (snd (DELETE (sample_env\<lparr>fault := (\<lambda>k. k = 1)\<rparr>) (Some ''t1'') seeded_world)))
       = task_tbl (store seeded_world)
   \<and> DELETE sample_env (Some ''t1'') seeded_world =
     (\<lparr>http_status = 200, http_body = DeletedJson True ''Task deleted successfully''
         \<lparr>task_id = ''t1'', task_title = ''write report'', task_description = None,
          task_priority = ''HIGH'', task_status = ''TODO'', task_dueDate = Some 1714521600000,
          task_createdAt = 1690000000000, task_updatedAt = 1690000000000\<rparr>\<rparr>,
      \<lparr>store = \<lparr>task_tbl =
           [\<lparr>task_id = ''t2'', task_title = ''buy milk'', task_description = Some ''2 litres'',
             task_priority = ''LOW'', task_status = ''DONE'', task_dueDate = None,
             task_createdAt = 1690000000001, task_updatedAt = 1690000000002\<rparr>],
         label_tbl = label_tbl (store seeded_world), taskLabel_tbl = []\<rparr>,
       calls = 2\<rparr>)
   \<and> DELETE sample_env (Some ''t9'') seeded_world =
     (\<lparr>http_status = 500, http_body = ErrorDetailsJson ''Failed to delete task'' RecordNotFound\<rparr>,
      \<lparr>store = store seeded_world, calls = 2\<rparr>)"
proof -
  let ?e = "sample_env\<lparr>fault := (\<lambda>k. k = 1)\<rparr>"
  have a: "''t1'' \<noteq> []" and a9: "''t9'' \<noteq> []" by simp_all
  have b: "\<not> fault ?e (calls seeded_world)" and b': "\<not> fault sample_env (calls seeded_world)"
    by (simp_all add: sample_env_def seeded_world_def)
  have r: "[] = filter (\<lambda>r. taskId r \<noteq> ''t1'') (taskLabel_tbl (store seeded_world))"
    by (simp add: seeded_world_def)
  have r9: "taskLabel_tbl (store seeded_world)
              = filter (\<lambda>r. taskId r \<noteq> ''t9'') (taskLabel_tbl (store seeded_world))"
    by (simp add: seeded_world_def)
  have f1: "fault ?e (Suc (calls seeded_world))" by (simp add: seeded_world_def)
  have f2: "\<not> fault sample_env (Suc (calls seeded_world))" by (simp add: sample_env_def)
  have t1: "find (\<lambda>t. task_id t = ''t1'') (task_tbl (store seeded_world)) =
       Some \<lparr>task_id = ''t1'', task_title = ''write report'', task_description = None,
          task_priority = ''HIGH'', task_status = ''TODO'', task_dueDate = Some 1714521600000,
          task_createdAt = 1690000000000, task_updatedAt = 1690000000000\<rparr>"
    by (simp add: seeded_world_def)
  have t9: "find (\<lambda>t. task_id t = ''t9'') (task_tbl (store seeded_world)) = None"
    by (simp add: seeded_world_def)
  from DELETE_two_steps_not_atomic [OF a b r] f1
  have p1: "DELETE ?e (Some ''t1'') seeded_world =
     (\<lparr>http_status = 500, http_body = ErrorDetailsJson ''Failed to delete task'' EngineFailure\<rparr>,
      \<lparr>store = (store seeded_world)\<lparr>taskLabel_tbl := []\<rparr>, calls = Suc (Suc (calls seeded_world))\<rparr>)"
    by blast
  from DELETE_two_steps_not_atomic [OF a b' r] f2 t1
  have p2: "DELETE sample_env (Some ''t1'') seeded_world =
     (\<lparr>http_status = 200, http_body = DeletedJson True ''Task deleted successfully''
         \<lparr>task_id = ''t1'', task_title = ''write report'', task_description = None,
          task_priority = ''HIGH'', task_status = ''TODO'', task_dueDate = Some 1714521600000,
          task_createdAt = 1690000000000, task_updatedAt = 1690000000000\<rparr>\<rparr>,
      \<lparr>store = (store seeded_world)\<lparr>task_tbl := filter (\<lambda>t. task_id t \<noteq> ''t1'') (task_tbl (store seeded_world)),
                               taskLabel_tbl := []\<rparr>,
       calls = Suc (Suc (calls seeded_world))\<rparr>)"
    by blast
  from DELETE_two_steps_not_atomic [OF a9 b' r9] f2 t9
  have p3: "DELETE sample_env (Some ''t9'') seeded_world =
     (\<lparr>http_status = 500, http_body = ErrorDetailsJson ''Failed to delete task'' RecordNotFound\<rparr>,
      \<lparr>store = (store seeded_world)\<lparr>taskLabel_tbl := taskLabel_tbl (store seeded_world)\<rparr>,
       calls = Suc (Suc (calls seeded_world))\<rparr>)"
    by blast
  from p1 p2 p3 show ?thesis by (simp add: seeded_world_def)
qed

subsection \<open>C6: a due date that does not parse\<close>

text \<open>
  C6 as stated fails for the empty string: it is present and is not a date, but line 28
  and line 29 test \<^verbatim>\<open>data.dueDate\<close> for truthiness, as the schema's own refinement does,
  so the request is treated as one without due date and its task is stored.
\<close>

theorem POST_empty_dueDate_counterexample:
  "dueDate \<lparr>title = Some ''t'', description = None, priority = None, status = None,
             dueDate = Some [], labels = None\<rparr> = Some []
   \<and> newDate sample_env [] = InvalidDate
   \<and> CreateTaskSchema sample_env
        \<lparr>title = Some ''t'', description = None, priority = None, status = None,
         dueDate = Some [], labels = None\<rparr>
   \<and> POST sample_env \<lparr>title = Some ''t'', description = None, priority = None, status = None,
             dueDate = Some [], labels = None\<rparr> empty_world =
       (\<lparr>http_status = 200, http_body = TaskJson
           \<lparr>task_id = ''c'', task_title = ''t'', task_description = None,
            task_priority = ''MEDIUM'', task_status = ''TODO'', task_dueDate = None,
            task_createdAt = 1700000000000, task_updatedAt = 1700000000000\<rparr>\<rparr>,
        \<lparr>store = \<lparr>task_tbl =
           [\<lparr>task_id = ''c'', task_title = ''t'', task_description = None,
            task_priority = ''MEDIUM'', task_status = ''TODO'', task_dueDate = None,
            task_createdAt = 1700000000000, task_updatedAt = 1700000000000\<rparr>],
           label_tbl = [], taskLabel_tbl = []\<rparr>, calls = 1\<rparr>)"
  by (simp add: CreateTaskSchema_def eval_defs)

text \<open>
  C6, amended. For every create request whose \<^verbatim>\<open>dueDate\<close> is a non-empty string that does
  not parse as a date, the answer is status 400 with the body
  \<^verbatim>\<open>{error: "Invalid due date format"}\<close>, and the state is untouched: no storage call is
  made and no row is stored.
\<close>

theorem POST_unparseable_dueDate:
  assumes "dueDate data = Some d" and "d \<noteq> []" and "newDate e d = InvalidDate"
  shows "POST e data w =
           (\<lparr>http_status = 400, http_body = ErrorJson ''Invalid due date format''\<rparr>, w)"
  using assms by (simp add: POST_def dueDate_rejected_def dueDate_of_def truthy_def)

theorem POST_unparseable_dueDate_witness:
  "POST sample_env
     \<lparr>title = Some ''t'', description = None, priority = None, status = None,
      dueDate = Some ''not-a-date'',
      labels = Some [\<lparr>name = Some ''work'', color = None\<rparr>]\<rparr> seeded_world =
     (\<lparr>http_status = 400, http_body = ErrorJson ''Invalid due date format''\<rparr>, seeded_world)"
proof -
  let ?d = "\<lparr>title = Some ''t'', description = None, priority = None, status = None,
             dueDate = Some ''not-a-date'',
             labels = Some [\<lparr>name = Some ''work'', color = None\<rparr>]\<rparr>"
  have h1: "dueDate ?d = Some ''not-a-date''" by simp
  have h2: "''not-a-date'' \<noteq> []" by simp
  have h3: "newDate sample_env ''not-a-date'' = InvalidDate" by (simp add: sample_env_def)
  from POST_unparseable_dueDate [OF h1 h2 h3] show ?thesis .
qed

subsection \<open>C7: a missing, empty or long title\<close>

text \<open>
  C7 says that a request whose title is missing, empty or longer than 100 characters
  fails in the validation layer and stores no task. \<^verbatim>\<open>CreateTaskSchema\<close> refuses the empty
  title, but the handler never applies the schema: the request with the empty title is
  answered with status 200 and its task is stored.
\<close>

theorem POST_empty_title_persisted:
  "\<not> CreateTaskSchema sample_env
        \<lparr>title = Some [], description = None, priority = None,
         status = None, dueDate = None, labels = None\<rparr>
   \<and> POST sample_env \<lparr>title = Some [], description = None, priority = None,
             status = None, dueDate = None, labels = None\<rparr> empty_world =
       (\<lparr>http_status = 200, http_body = TaskJson
           \<lparr>task_id = ''c'', task_title = [], task_description = None,
            task_priority = ''MEDIUM'', task_status = ''TODO'', task_dueDate = None,
            task_createdAt = 1700000000000, task_updatedAt = 1700000000000\<rparr>\<rparr>,
        \<lparr>store = \<lparr>task_tbl =
           [\<lparr>task_id = ''c'', task_title = [], task_description = None,
            task_priority = ''MEDIUM'', task_status = ''TODO'', task_dueDate = None,
            task_createdAt = 1700000000000, task_updatedAt = 1700000000000\<rparr>],
           label_tbl = [], taskLabel_tbl = []\<rparr>, calls = 1\<rparr>)"
  by (simp add: CreateTaskSchema_def eval_defs)

subsection \<open>C8: the defaults of a request with a title only\<close>

text \<open>
  C8. For every create request that supplies a title and no other field, the task that is
  created has priority \<^verbatim>\<open>MEDIUM\<close>, status \<^verbatim>\<open>TODO\<close> and no due date. It is created, returned
  with status 200 and stored, unless the engine fails in the insert or the generated
  identifier is already taken.
\<close>

theorem POST_title_only_defaults:
  "POST e \<lparr>title = Some t, description = None, priority = None, status = None,
            dueDate = None, labels = None\<rparr> w =
     (if fault e (calls w) \<or> cuid e (calls w) \<in> set (map task_id (task_tbl (store w)))
      then (\<lparr>http_status = 500, http_body = ErrorJson ''Failed to create task''\<rparr>,
            w\<lparr>calls := Suc (calls w)\<rparr>)
      else (\<lparr>http_status = 200, http_body = TaskJson
               \<lparr>task_id = cuid e (calls w), task_title = t, task_description = None,
                task_priority = ''MEDIUM'', task_status = ''TODO'', task_dueDate = None,
                task_createdAt = now e (calls w), task_updatedAt = now e (calls w)\<rparr>\<rparr>,
            \<lparr>store = (store w)\<lparr>task_tbl := task_tbl (store w) @
               [\<lparr>task_id = cuid e (calls w), task_title = t, task_description = None,
                 task_priority = ''MEDIUM'', task_status = ''TODO'', task_dueDate = None,
                 task_createdAt = now e (calls w), task_updatedAt = now e (calls w)\<rparr>]\<rparr>,
             calls = Suc (calls w)\<rparr>))"
  by (simp add: POST_def dueDate_rejected_def dueDate_of_def truthy_def transaction_def
      create_tx_def task_create_def tick_def Let_def)

theorem POST_title_only_defaults_witness:
  "POST sample_env \<lparr>title = Some ''buy bread'', description = None, priority = None,
            status = None, dueDate = None, labels = None\<rparr> seeded_world =
      (\<lparr>http_status = 200, http_body = TaskJson
               \<lparr>task_id = ''c'', task_title = ''buy bread'', task_description = None,
                task_priority = ''MEDIUM'', task_status = ''TODO'', task_dueDate = None,
                task_createdAt = 1700000000000, task_updatedAt = 1700000000000\<rparr>\<rparr>,
            \<lparr>store = (store seeded_world)\<lparr>task_tbl := task_tbl (store seeded_world) @
               [\<lparr>task_id = ''c'', task_title = ''buy bread'', task_description = None,
                 task_priority = ''MEDIUM'', task_status = ''TODO'', task_dueDate = None,
                 task_createdAt = 1700000000000, task_updatedAt = 1700000000000\<rparr>]\<rparr>,
             calls = 1\<rparr>)"
  using POST_title_only_defaults [of sample_env "''buy bread''" seeded_world]
  by (simp add: sample_env_def seeded_world_def)

subsection \<open>C9: the same label name twice in one request\<close>

text \<open>
  C9 as stated fails when the request also carries a due date that the early check
  rejects: the answer is then status 400, not 500, and the label loop is never reached.
\<close>

theorem POST_repeated_label_name_counterexample:
  "labels \<lparr>title = Some ''plan'', description = None, priority = None, status = None,
           dueDate = Some ''not-a-date'',
           labels = Some [\<lparr>name = Some ''work'', color = Some ''#ff0000''\<rparr>,
                          \<lparr>name = Some ''work'', color = Some ''#00ff00''\<rparr>]\<rparr>
     = Some [\<lparr>name = Some ''work'', color = Some ''#ff0000''\<rparr>,
             \<lparr>name = Some ''work'', color = Some ''#00ff00''\<rparr>]
   \<and> POST sample_env
        \<lparr>title = Some ''plan'', description = None, priority = None, status = None,
         dueDate = Some ''not-a-date'',
         labels = Some [\<lparr>name = Some ''work'', color = Some ''#ff0000''\<rparr>,
                        \<lparr>name = Some ''work'', color = Some ''#00ff00''\<rparr>]\<rparr> empty_world =
       (\<lparr>http_status = 400, http_body = ErrorJson ''Invalid due date format''\<rparr>, empty_world)"
  by (simp add: POST_def dueDate_rejected_def dueDate_of_def truthy_def sample_env_def)

text \<open>
  C9, amended. For every create request that passes the early due-date check and whose
  label list contains the same label name at two positions, the answer is status 500 with
  the body \<^verbatim>\<open>{error: "Failed to create task"}\<close> and the stored rows are those of before the
  request. Whenever the loop reaches the second position, the lookup there finds a label
  that the task is attached to already, the entry resolves to that label's identifier, and
  the insert of the association fails, with the violation of the primary key
  \<^verbatim>\<open>(taskId, labelId)\<close> unless the engine itself fails in that call.
\<close>

theorem POST_repeated_label_name_fails:
  assumes "labels data = Some ls" and "i < j" and "j < length ls"
    and "name (ls ! i) = Some n" and "name (ls ! j) = Some n"
    and "\<not> dueDate_rejected e data"
  shows "(\<exists>w'. POST e data w =
             (\<lparr>http_status = 500, http_body = ErrorJson ''Failed to create task''\<rparr>, w')
           \<and> store w' = store w)
       \<and> (\<forall>tid w1 u wj. label_loop e tid (take j ls) w1 = (Inr u, wj) \<longrightarrow>
            (\<exists>L. find (\<lambda>l. label_name l = n) (label_tbl (store wj)) = Some L
               \<and> \<lparr>taskId = tid, labelId = label_id L\<rparr> \<in> set (taskLabel_tbl (store wj))
               \<and> (\<forall>lid w2. resolve_label e (ls ! j) wj = (Inr lid, w2) \<longrightarrow>
                     lid = label_id L
                     \<and> (\<exists>err w3. taskLabel_create e tid lid w2 = (Inl err, w3)
                           \<and> (\<not> fault e (calls w2) \<longrightarrow> err = UniqueConstraintFailed)))))"
proof -
  from create_tx_fails_on_repeated_name [OF assms(1-5)]
  obtain err w1 where "create_tx e data (dueDate_of e data) w = (Inl err, w1)" by blast
  with assms(6) have "\<exists>w'. POST e data w =
             (\<lparr>http_status = 500, http_body = ErrorJson ''Failed to create task''\<rparr>, w')
           \<and> store w' = store w"
    by (simp add: POST_def transaction_def)
  with second_occurrence_collides [OF assms(2-5)] show ?thesis by blast
qed

text \<open>
  C9 at a concrete request on the empty store: the first entry creates the label
  \<^verbatim>\<open>work\<close> and attaches it, the lookup of the second entry finds that label, and the second
  insert of the same association violates the primary key. The rows inserted by the
  callback are not stored after the request.
\<close>

theorem POST_repeated_label_name_fails_witness:
  "create_tx sample_env
     \<lparr>title = Some ''plan'', description = None, priority = None, status = None, dueDate = None,
      labels = Some [\<lparr>name = Some ''work'', color = Some ''#ff0000''\<rparr>,
                     \<lparr>name = Some ''work'', color = Some ''#00ff00''\<rparr>]\<rparr> None empty_world =
     (Inl UniqueConstraintFailed,
      \<lparr>store = \<lparr>task_tbl =
           [\<lparr>task_id = ''c'', task_title = ''plan'', task_description = None,
             task_priority = ''MEDIUM'', task_status = ''TODO'', task_dueDate = None,
             task_createdAt = 1700000000000, task_updatedAt = 1700000000000\<rparr>],
         label_tbl =
           [\<lparr>label_id = ''ccc'', label_name = ''work'', label_color = ''#ff0000'',
             label_createdAt = 1700000000002, label_updatedAt = 1700000000002\<rparr>],
         taskLabel_tbl = [\<lparr>taskId = ''c'', labelId = ''ccc''\<rparr>]\<rparr>,
       calls = 6\<rparr>)
   \<and> POST sample_env
     \<lparr>title = Some ''plan'', description = None, priority = None, status = None, dueDate = None,
      labels = Some [\<lparr>name = Some ''work'', color = Some ''#ff0000''\<rparr>,
                     \<lparr>name = Some ''work'', color = Some ''#00ff00''\<rparr>]\<rparr> empty_world =
     (\<lparr>http_status = 500, http_body = ErrorJson ''Failed to create task''\<rparr>,
      \<lparr>store = store empty_world, calls = 6\<rparr>)"
proof -
  let ?ls = "[\<lparr>name = Some ''work'', color = Some ''#ff0000''\<rparr>,
              \<lparr>name = Some ''work'', color = Some ''#00ff00''\<rparr>]"
  let ?d = "\<lparr>title = Some ''plan'', description = None, priority = None, status = None,
             dueDate = None, labels = Some ?ls\<rparr>"
  have h1: "labels ?d = Some ?ls" by simp
  have h2: "(0::nat) < 1" by simp
  have h3: "1 < length ?ls" by simp
  have h4: "name (?ls ! 0) = Some ''work''" by simp
  have h5: "name (?ls ! 1) = Some ''work''" by simp
  have h6: "\<not> dueDate_rejected sample_env ?d" by (simp add: dueDate_rejected_def truthy_def)
  have tx: "create_tx sample_env ?d None empty_world =
     (Inl UniqueConstraintFailed,
      \<lparr>store = \<lparr>task_tbl =
           [\<lparr>task_id = ''c'', task_title = ''plan'', task_description = None,
             task_priority = ''MEDIUM'', task_status = ''TODO'', task_dueDate = None,
             task_createdAt = 1700000000000, task_updatedAt = 1700000000000\<rparr>],
         label_tbl =
           [\<lparr>label_id = ''ccc'', label_name = ''work'', label_color = ''#ff0000'',
             label_createdAt = 1700000000002, label_updatedAt = 1700000000002\<rparr>],
         taskLabel_tbl = [\<lparr>taskId = ''c'', labelId = ''ccc''\<rparr>]\<rparr>,
       calls = 6\<rparr>)"
    by (simp add: eval_defs)
  have calls: "calls (snd (POST sample_env ?d empty_world)) = 6"
    by (simp add: eval_defs)
  from POST_repeated_label_name_fails [OF h1 h2 h3 h4 h5 h6, of empty_world]
  obtain w' where p: "POST sample_env ?d empty_world =
             (\<lparr>http_status = 500, http_body = ErrorJson ''Failed to create task''\<rparr>, w')"
    and s: "store w' = store empty_world" by blast
  from p calls have "calls w' = 6" by simp
  with s have "w' = \<lparr>store = store empty_world, calls = 6\<rparr>" by (cases w') simp
  with p tx show ?thesis by simp
qed

subsection \<open>C10: a delete request without identifier\<close>

text \<open>
  C10. For every delete request whose \<^verbatim>\<open>id\<close> parameter is absent or the empty string, the
  answer is status 400 with the body \<^verbatim>\<open>{error: "Task ID is required"}\<close>, and the state is
  untouched: no storage call is made and every row is as before.
\<close>

theorem DELETE_requires_id:
  assumes "taskId_param = None \<or> taskId_param = Some []"
  shows "DELETE e taskId_param w =
           (\<lparr>http_status = 400, http_body = ErrorJson ''Task ID is required''\<rparr>, w)"
  using assms by (auto simp: DELETE_def truthy_def)

theorem DELETE_requires_id_witness:
  "DELETE sample_env (Some []) seeded_world =
     (\<lparr>http_status = 400, http_body = ErrorJson ''Task ID is required''\<rparr>, seeded_world)
   \<and> DELETE sample_env None seeded_world =
     (\<lparr>http_status = 400, http_body = ErrorJson ''Task ID is required''\<rparr>, seeded_world)"
  using DELETE_requires_id [of "Some []" sample_env seeded_world]
    DELETE_requires_id [of None sample_env seeded_world]
  by simp

end
